theory Spec2Isabelle
  imports Main "HOL-Library.Sublist"
begin

section \<open>The Box batch pipeline of main.go\<close>

text \<open>
  A shallow embedding of the Box mode of \<^verbatim>\<open>main.go\<close>: the listing and filtering of
  \<^verbatim>\<open>GetIWorkFiles\<close>, \<^verbatim>\<open>DownloadFile\<close>, \<^verbatim>\<open>ConvertIWorkFile\<close>,
  \<^verbatim>\<open>SaveFileWithMetadata\<close>, the loop of \<^verbatim>\<open>ProcessFolder\<close>, \<^verbatim>\<open>GenerateReport\<close>
  and the part of \<^verbatim>\<open>main\<close> that runs them.

  The program talks to a remote store, a file system, a clock and two converters of
  another repository. The file system and the clock are a state that every function
  takes and returns; what the outside does (the answer to a request, an I/O failure,
  the converters, the formatting routines of the Go library) is read from a record of
  parameters, so that every theorem holds for every behaviour of the outside.
  Log lines and console output are not modelled.
\<close>

subsection \<open>Data\<close>

type_synonym path = string
type_synonym bytes = string

text \<open>A \<^verbatim>\<open>time.Time\<close> as nanoseconds since the zero time, so that the zero value is 0.\<close>

type_synonym timestamp = int

record BoxConfig =
  AccessToken :: string
  BaseURL :: string
  FolderID :: string

record FileInfo =
  ID :: string
  Name :: string
  Size :: int
  Extension :: string
  ModifiedAt :: timestamp

record ProcessedFile =
  OriginalFile :: string
  OutputPath :: string
  FileSize :: int
  ProcessTime :: string

text \<open>
  The counters of a summary are Go \<^verbatim>\<open>int\<close>s. They count the elements of slices, whose
  lengths fit an \<^verbatim>\<open>int\<close>, so they do not wrap and are integers here.
\<close>

record ProcessingSummary =
  TotalFiles :: int
  Successful :: int
  Failed :: int
  Errors :: "string list"
  ProcessedFiles :: "ProcessedFile list"
  StartTime :: timestamp
  EndTime :: timestamp
  Duration :: int

text \<open>The http client of a \<^verbatim>\<open>BoxClient\<close> is part of the outside.\<close>

record BoxClient =
  config :: BoxConfig

record IWorkProcessor =
  boxClient :: BoxClient
  tempDir :: path
  outputDir :: path
  format :: string

text \<open>An element of \<^verbatim>\<open>result.Entries\<close>, the anonymous struct of \<^verbatim>\<open>GetIWorkFiles\<close>.\<close>

record entry =
  eID :: string
  eName :: string
  eType :: string
  eSize :: int
  eModifiedAt :: timestamp

record request =
  rmethod :: string
  rurl :: string
  rheaders :: "(string \<times> string) list"

text \<open>
  A response body delivers some bytes and then ends, or fails with a read error.
  A request is answered by a transport error or by a response: status code, status
  text (\<^verbatim>\<open>resp.Status\<close>) and body.
\<close>

datatype body = Body bytes "string option"

datatype http_outcome = TransportError string | Response int string body

text \<open>
  One constructor for each \<^verbatim>\<open>fmt.Errorf\<close> of the source, holding what the format
  string is filled with, and one for an error of a converter.
\<close>

datatype error =
    CreateRequestFailed string
  | MakeRequestFailed string
  | BoxAPIError string
  | DecodeFailed string
  | CreateDownloadRequestFailed string
  | DownloadFailed string
  | DownloadStatus string
  | CreateTempFileFailed string
  | WriteFileFailed string
  | ConverterError string
  | ReadConvertedFailed string
  | WriteEnhancedFailed string
  | GetIWorkFilesFailed error
  | MarshalFailed string
  | WriteReportFailed string
  | CreateDirectoryFailed path string

text \<open>\<^verbatim>\<open>err.Error()\<close>: the message, as the format strings of the source give it.\<close>

fun Error :: "error \<Rightarrow> string" where
  "Error (CreateRequestFailed m) = ''failed to create request: '' @ m"
| "Error (MakeRequestFailed m) = ''failed to make request: '' @ m"
| "Error (BoxAPIError status) = ''Box API error: '' @ status"
| "Error (DecodeFailed m) = ''failed to decode response: '' @ m"
| "Error (CreateDownloadRequestFailed m) = ''failed to create download request: '' @ m"
| "Error (DownloadFailed m) = ''failed to download file: '' @ m"
| "Error (DownloadStatus status) = ''download failed with status: '' @ status"
| "Error (CreateTempFileFailed m) = ''failed to create temp file: '' @ m"
| "Error (WriteFileFailed m) = ''failed to write file: '' @ m"
| "Error (ConverterError m) = m"
| "Error (ReadConvertedFailed m) = ''failed to read converted file: '' @ m"
| "Error (WriteEnhancedFailed m) = ''failed to write enhanced file: '' @ m"
| "Error (GetIWorkFilesFailed e) = ''failed to get iWork files: '' @ Error e"
| "Error (MarshalFailed m) = ''failed to marshal report: '' @ m"
| "Error (WriteReportFailed m) = ''failed to write report: '' @ m"
| "Error (CreateDirectoryFailed dir m) = ''failed to create directory '' @ dir @ '': '' @ m"

subsection \<open>The outside\<close>

text \<open>
  What the program does not decide. A \<^verbatim>\<open>string option\<close> is the message of the error
  an operation fails with, \<^verbatim>\<open>None\<close> when it does not fail.
  \<^item> \<open>new_request_error\<close>: \<^verbatim>\<open>http.NewRequest("GET", url, nil)\<close>;
  \<^item> \<open>http_do\<close>: \<^verbatim>\<open>httpClient.Do\<close>;
  \<^item> \<open>json_decode\<close>: \<^verbatim>\<open>json.NewDecoder(resp.Body).Decode\<close>, the entries of the body;
  \<^item> \<open>to_lower\<close>: \<^verbatim>\<open>strings.ToLower\<close>; \<open>path_join\<close>: \<^verbatim>\<open>filepath.Join\<close>;
  \<^item> \<open>mkdir_error\<close>, \<open>create_error\<close>, \<open>write_error\<close>, \<open>read_error\<close>,
    \<open>remove_error\<close>: the failures of \<^verbatim>\<open>os.MkdirAll\<close>, \<^verbatim>\<open>os.Create\<close>, of writing
    (\<^verbatim>\<open>io.Copy\<close>, \<^verbatim>\<open>os.WriteFile\<close>), of \<^verbatim>\<open>os.ReadFile\<close> and of \<^verbatim>\<open>os.Remove\<close>
    at a path;
  \<^item> \<open>convert_text\<close>, \<open>convert_html\<close>: \<^verbatim>\<open>iwork2text.Convert\<close> and
    \<^verbatim>\<open>iwork2html.Convert\<close>, which may change any file;
  \<^item> \<open>clock\<close>: the reading of the n-th call of \<^verbatim>\<open>time.Now\<close>;
  \<^item> \<open>format_rfc3339\<close>, \<open>format_stamp\<close>, \<open>duration_string\<close>, \<open>marshal_indent\<close>:
    \<^verbatim>\<open>Format(time.RFC3339)\<close>, \<^verbatim>\<open>Format("20060102_150405")\<close>,
    \<^verbatim>\<open>Duration.String\<close> and \<^verbatim>\<open>json.MarshalIndent\<close> of a summary.
\<close>

record env =
  new_request_error :: "string \<Rightarrow> string option"
  http_do :: "request \<Rightarrow> http_outcome"
  json_decode :: "body \<Rightarrow> string + entry list"
  to_lower :: "string \<Rightarrow> string"
  path_join :: "path \<Rightarrow> string \<Rightarrow> path"
  mkdir_error :: "path \<Rightarrow> string option"
  create_error :: "path \<Rightarrow> string option"
  write_error :: "path \<Rightarrow> string option"
  read_error :: "path \<Rightarrow> string option"
  remove_error :: "path \<Rightarrow> string option"
  convert_text :: "path \<Rightarrow> path \<Rightarrow> (path \<rightharpoonup> bytes) \<Rightarrow> (path \<rightharpoonup> bytes) \<times> string option"
  convert_html :: "path \<Rightarrow> path \<Rightarrow> (path \<rightharpoonup> bytes) \<Rightarrow> (path \<rightharpoonup> bytes) \<times> string option"
  clock :: "nat \<Rightarrow> timestamp"
  format_rfc3339 :: "timestamp \<Rightarrow> string"
  format_stamp :: "timestamp \<Rightarrow> string"
  duration_string :: "int \<Rightarrow> string"
  marshal_indent :: "ProcessingSummary \<Rightarrow> string + bytes"

text \<open>
  The state: the regular files on disk, the number of clock readings taken and the
  requests sent so far.
\<close>

record world =
  files :: "path \<rightharpoonup> bytes"
  ticks :: nat
  sent :: "request list"

subsection \<open>Library routines\<close>

definition time_Now :: "env \<Rightarrow> world \<Rightarrow> timestamp \<times> world" where
  "time_Now e w = (clock e (ticks w), w\<lparr>ticks := Suc (ticks w)\<rparr>)"

text \<open>\<^verbatim>\<open>Time.Sub\<close>: the difference, saturated at the bounds of an int64 Duration.\<close>

definition time_Sub :: "timestamp \<Rightarrow> timestamp \<Rightarrow> int" where
  "time_Sub t u =
     (let d = t - u in
      if d > 2 ^ 63 - 1 then 2 ^ 63 - 1 else if d < - (2 ^ 63) then - (2 ^ 63) else d)"

text \<open>
  \<^verbatim>\<open>filepath.Ext\<close> (Unix): scanning from the end, up to the last separator, the suffix
  that starts at the first dot met; empty when there is none. \<open>Ext_scan\<close> walks the
  reversed path and collects the characters passed.
\<close>

fun Ext_scan :: "string \<Rightarrow> string \<Rightarrow> string" where
  "Ext_scan [] passed = []"
| "Ext_scan (c # cs) passed =
     (if c = CHR ''/'' then []
      else if c = CHR ''.'' then c # passed
      else Ext_scan cs (c # passed))"

definition Ext :: "string \<Rightarrow> string" where
  "Ext p = Ext_scan (rev p) []"

definition HasSuffix :: "string \<Rightarrow> string \<Rightarrow> bool" where
  "HasSuffix s suf = (length suf \<le> length s \<and> drop (length s - length suf) s = suf)"

definition TrimSuffix :: "string \<Rightarrow> string \<Rightarrow> string" where
  "TrimSuffix s suf = (if HasSuffix s suf then take (length s - length suf) s else s)"

text \<open>The verb \<^verbatim>\<open>%d\<close> of an integer: a minus sign when negative, and the decimal digits.\<close>

fun decimal :: "nat \<Rightarrow> string" where
  "decimal n =
     (if n < 10 then [''0123456789'' ! n]
      else decimal (n div 10) @ [''0123456789'' ! (n mod 10)])"

declare decimal.simps [simp del]

definition fmt_d :: "int \<Rightarrow> string" where
  "fmt_d i = (if i < 0 then ''-'' @ decimal (nat (- i)) else decimal (nat i))"

text \<open>\<^verbatim>\<open>strings.ToLower\<close> on ASCII text, for the examples.\<close>

definition ascii_lower_char :: "char \<Rightarrow> char" where
  "ascii_lower_char c =
     (let n = (of_char c :: nat) in if 65 \<le> n \<and> n \<le> 90 then char_of (n + 32) else c)"

definition ascii_ToLower :: "string \<Rightarrow> string" where
  "ascii_ToLower s = map ascii_lower_char s"

subsection \<open>File system operations\<close>

definition os_Create :: "env \<Rightarrow> path \<Rightarrow> world \<Rightarrow> world \<times> string option" where
  "os_Create e p w =
     (case create_error e p of
        Some m \<Rightarrow> (w, Some m)
      | None \<Rightarrow> (w\<lparr>files := (files w)(p \<mapsto> [])\<rparr>, None))"

text \<open>
  \<^verbatim>\<open>io.Copy(file, resp.Body)\<close> into the file just created at \<open>p\<close>: the bytes the body
  delivers are written; the copy fails when writing fails or when the body ends with
  a read error, and the file stays on disk either way.
\<close>

definition io_Copy :: "env \<Rightarrow> path \<Rightarrow> body \<Rightarrow> world \<Rightarrow> world \<times> string option" where
  "io_Copy e p b w =
     (case write_error e p of
        Some m \<Rightarrow> (w, Some m)
      | None \<Rightarrow> (case b of Body delivered rerr \<Rightarrow> (w\<lparr>files := (files w)(p \<mapsto> delivered)\<rparr>, rerr)))"

definition os_ReadFile :: "env \<Rightarrow> path \<Rightarrow> world \<Rightarrow> string + bytes" where
  "os_ReadFile e p w =
     (case read_error e p of
        Some m \<Rightarrow> Inl m
      | None \<Rightarrow>
          (case files w p of
             None \<Rightarrow> Inl (''open '' @ p @ '': no such file or directory'')
           | Some content \<Rightarrow> Inr content))"

definition os_WriteFile :: "env \<Rightarrow> path \<Rightarrow> bytes \<Rightarrow> world \<Rightarrow> world \<times> string option" where
  "os_WriteFile e p content w =
     (case write_error e p of
        Some m \<Rightarrow> (w, Some m)
      | None \<Rightarrow> (w\<lparr>files := (files w)(p \<mapsto> content)\<rparr>, None))"

text \<open>\<^verbatim>\<open>os.Remove\<close>; the callers drop the error it returns.\<close>

definition os_Remove :: "env \<Rightarrow> path \<Rightarrow> world \<Rightarrow> world" where
  "os_Remove e p w =
     (case remove_error e p of
        Some m \<Rightarrow> w
      | None \<Rightarrow> w\<lparr>files := (files w)(p := None)\<rparr>)"

subsection \<open>GetIWorkFiles\<close>

definition supportedExtensions :: "string \<rightharpoonup> bool" where
  "supportedExtensions =
     map_of [(''.pages'', True), (''.numbers'', True), (''.keynote'', True),
             (''.key'', True), (''.nmbrs'', True)]"

text \<open>Indexing a Go \<^verbatim>\<open>map[string]bool\<close>: false at a key that is absent.\<close>

definition lookup_bool :: "(string \<rightharpoonup> bool) \<Rightarrow> string \<Rightarrow> bool" where
  "lookup_bool m k = (case m k of None \<Rightarrow> False | Some b \<Rightarrow> b)"

text \<open>The loop over \<^verbatim>\<open>result.Entries\<close>, appending to \<^verbatim>\<open>iworkFiles\<close>.\<close>

fun collect_iwork :: "env \<Rightarrow> entry list \<Rightarrow> FileInfo list \<Rightarrow> FileInfo list" where
  "collect_iwork e [] iworkFiles = iworkFiles"
| "collect_iwork e (en # entries) iworkFiles =
     (if eType en = ''file'' then
        (let ext = to_lower e (Ext (eName en)) in
         if lookup_bool supportedExtensions ext then
           collect_iwork e entries
             (iworkFiles @
              [\<lparr>ID = eID en, Name = eName en, Size = eSize en, Extension = ext,
                ModifiedAt = eModifiedAt en\<rparr>])
         else collect_iwork e entries iworkFiles)
      else collect_iwork e entries iworkFiles)"

definition list_url :: "BoxClient \<Rightarrow> string" where
  "list_url bc = BaseURL (config bc) @ ''/folders/'' @ FolderID (config bc) @ ''/items''"

definition list_request :: "BoxClient \<Rightarrow> request" where
  "list_request bc =
     \<lparr>rmethod = ''GET'', rurl = list_url bc,
      rheaders = [(''Authorization'', ''Bearer '' @ AccessToken (config bc)),
                  (''Content-Type'', ''application/json'')]\<rparr>"

definition GetIWorkFiles :: "env \<Rightarrow> BoxClient \<Rightarrow> world \<Rightarrow> world \<times> (error + FileInfo list)" where
  "GetIWorkFiles e bc w =
     (case new_request_error e (list_url bc) of
        Some m \<Rightarrow> (w, Inl (CreateRequestFailed m))
      | None \<Rightarrow>
          (let w1 = w\<lparr>sent := sent w @ [list_request bc]\<rparr> in
           case http_do e (list_request bc) of
             TransportError m \<Rightarrow> (w1, Inl (MakeRequestFailed m))
           | Response code status b \<Rightarrow>
               if code \<noteq> 200 then (w1, Inl (BoxAPIError status))
               else
                 (case json_decode e b of
                    Inl m \<Rightarrow> (w1, Inl (DecodeFailed m))
                  | Inr entries \<Rightarrow> (w1, Inr (collect_iwork e entries [])))))"

text \<open>
  The filter in the words of the specification: an entry is supported when its kind
  is \<^verbatim>\<open>file\<close> and the lower-case extension of its name is one of the five.
\<close>

definition isSupported :: "env \<Rightarrow> entry \<Rightarrow> bool" where
  "isSupported e en =
     (eType en = ''file'' \<and>
      to_lower e (Ext (eName en)) \<in>
        {''.pages'', ''.numbers'', ''.keynote'', ''.key'', ''.nmbrs''})"

definition candidate_of :: "env \<Rightarrow> entry \<Rightarrow> FileInfo" where
  "candidate_of e en =
     \<lparr>ID = eID en, Name = eName en, Size = eSize en,
      Extension = to_lower e (Ext (eName en)), ModifiedAt = eModifiedAt en\<rparr>"

subsection \<open>DownloadFile\<close>

definition download_url :: "BoxClient \<Rightarrow> string \<Rightarrow> string" where
  "download_url bc fileID = BaseURL (config bc) @ ''/files/'' @ fileID @ ''/content''"

definition download_request :: "BoxClient \<Rightarrow> string \<Rightarrow> request" where
  "download_request bc fileID =
     \<lparr>rmethod = ''GET'', rurl = download_url bc fileID,
      rheaders = [(''Authorization'', ''Bearer '' @ AccessToken (config bc))]\<rparr>"

definition DownloadFile ::
  "env \<Rightarrow> BoxClient \<Rightarrow> string \<Rightarrow> string \<Rightarrow> path \<Rightarrow> world \<Rightarrow> world \<times> (error + path)" where
  "DownloadFile e bc fileID filename tmp w =
     (case new_request_error e (download_url bc fileID) of
        Some m \<Rightarrow> (w, Inl (CreateDownloadRequestFailed m))
      | None \<Rightarrow>
          (let w1 = w\<lparr>sent := sent w @ [download_request bc fileID]\<rparr> in
           case http_do e (download_request bc fileID) of
             TransportError m \<Rightarrow> (w1, Inl (DownloadFailed m))
           | Response code status b \<Rightarrow>
               if code \<noteq> 200 then (w1, Inl (DownloadStatus status))
               else
                 (let tempPath = path_join e tmp filename in
                  case os_Create e tempPath w1 of
                    (w2, Some m) \<Rightarrow> (w2, Inl (CreateTempFileFailed m))
                  | (w2, None) \<Rightarrow>
                      (case io_Copy e tempPath b w2 of
                         (w3, Some m) \<Rightarrow> (w3, Inl (WriteFileFailed m))
                       | (w3, None) \<Rightarrow> (w3, Inr tempPath)))))"

subsection \<open>ConvertIWorkFile and SaveFileWithMetadata\<close>

definition ConvertIWorkFile ::
  "env \<Rightarrow> IWorkProcessor \<Rightarrow> path \<Rightarrow> path \<Rightarrow> world \<Rightarrow> world \<times> error option" where
  "ConvertIWorkFile e p inputPath outputPath w =
     (let (fs, r) =
        (if format p = ''txt'' then convert_text e inputPath outputPath (files w)
         else convert_html e inputPath outputPath (files w))
      in (w\<lparr>files := fs\<rparr>, map_option ConverterError r))"

text \<open>
  The buffer of \<^verbatim>\<open>SaveFileWithMetadata\<close>, one \<^verbatim>\<open>WriteString\<close> after the other;
  \<open>now\<close> is the reading of \<^verbatim>\<open>time.Now()\<close> in the fifth.
\<close>

definition metadata_buffer :: "env \<Rightarrow> FileInfo \<Rightarrow> timestamp \<Rightarrow> bytes \<Rightarrow> bytes" where
  "metadata_buffer e metadata now convertedContent =
     (let buffer = [];
          buffer = buffer @ (''# Extracted from: '' @ Name metadata @ ''\<newline>'');
          buffer = buffer @ (''# File ID: '' @ ID metadata @ ''\<newline>'');
          buffer = buffer @ (''# Size: '' @ fmt_d (Size metadata) @ '' bytes\<newline>'');
          buffer = buffer @ (''# Modified: '' @ format_rfc3339 e (ModifiedAt metadata) @ ''\<newline>'');
          buffer = buffer @ (''# Extracted: '' @ format_rfc3339 e now @ ''\<newline>'');
          buffer = buffer @ (''# Extension: '' @ Extension metadata @ ''\<newline>'');
          buffer = buffer @ ''\<newline>'';
          buffer = buffer @ replicate 50 CHR ''-'';
          buffer = buffer @ ''\<newline>\<newline>'';
          buffer = buffer @ convertedContent
      in buffer)"

definition SaveFileWithMetadata ::
  "env \<Rightarrow> IWorkProcessor \<Rightarrow> path \<Rightarrow> path \<Rightarrow> FileInfo \<Rightarrow> world \<Rightarrow> world \<times> (error + path)" where
  "SaveFileWithMetadata e p originalPath convertedPath metadata w =
     (if format p \<noteq> ''txt'' then (w, Inr convertedPath)
      else
        (case os_ReadFile e convertedPath w of
           Inl m \<Rightarrow> (w, Inl (ReadConvertedFailed m))
         | Inr convertedContent \<Rightarrow>
             (let (now, w1) = time_Now e w in
              case os_WriteFile e convertedPath
                     (metadata_buffer e metadata now convertedContent) w1 of
                (w2, Some m) \<Rightarrow> (w2, Inl (WriteEnhancedFailed m))
              | (w2, None) \<Rightarrow> (w2, Inr convertedPath))))"

subsection \<open>ProcessFolder\<close>

text \<open>The output path of a candidate, as the loop of \<^verbatim>\<open>ProcessFolder\<close> determines it.\<close>

definition output_path :: "env \<Rightarrow> IWorkProcessor \<Rightarrow> string \<Rightarrow> path" where
  "output_path e p name =
     (let baseName = TrimSuffix name (Ext name) in
      if format p = ''txt'' then path_join e (outputDir p) (baseName @ ''_extracted.txt'')
      else path_join e (outputDir p) (baseName @ ''_converted.html''))"

text \<open>One iteration of the loop: a candidate, the state and the summary so far.\<close>

definition process_file ::
  "env \<Rightarrow> IWorkProcessor \<Rightarrow> FileInfo \<Rightarrow> world \<Rightarrow> ProcessingSummary \<Rightarrow> world \<times> ProcessingSummary" where
  "process_file e p fileInfo w summary =
     (let (processStart, w0) = time_Now e w in
      case DownloadFile e (boxClient p) (ID fileInfo) (Name fileInfo) (tempDir p) w0 of
        (w1, Inl err) \<Rightarrow>
          (w1, summary\<lparr>Failed := Failed summary + 1,
                  Errors := Errors summary @
                    [''Failed to download '' @ Name fileInfo @ '': '' @ Error err]\<rparr>)
      | (w1, Inr localPath) \<Rightarrow>
          (let outputPath = output_path e p (Name fileInfo) in
           case ConvertIWorkFile e p localPath outputPath w1 of
             (w2, Some err) \<Rightarrow>
               (os_Remove e localPath w2,
                summary\<lparr>Failed := Failed summary + 1,
                  Errors := Errors summary @
                    [''Failed to convert '' @ Name fileInfo @ '': '' @ Error err]\<rparr>)
           | (w2, None) \<Rightarrow>
               (case SaveFileWithMetadata e p localPath outputPath fileInfo w2 of
                  (w3, Inl err) \<Rightarrow>
                    (os_Remove e localPath w3,
                     summary\<lparr>Failed := Failed summary + 1,
                       Errors := Errors summary @
                         [''Failed to save enhanced file for '' @ Name fileInfo @ '': '' @ Error err]\<rparr>)
                | (w3, Inr finalPath) \<Rightarrow>
                    (let (t, w4) = time_Now e w3 in
                     (os_Remove e localPath w4,
                      summary\<lparr>Successful := Successful summary + 1,
                        ProcessedFiles := ProcessedFiles summary @
                          [\<lparr>OriginalFile = Name fileInfo, OutputPath = finalPath,
                            FileSize = Size fileInfo,
                            ProcessTime = duration_string e (time_Sub t processStart)\<rparr>]\<rparr>)))))"

text \<open>The loop over \<^verbatim>\<open>iworkFiles\<close>.\<close>

fun process_files ::
  "env \<Rightarrow> IWorkProcessor \<Rightarrow> FileInfo list \<Rightarrow> world \<Rightarrow> ProcessingSummary \<Rightarrow> world \<times> ProcessingSummary" where
  "process_files e p [] w summary = (w, summary)"
| "process_files e p (fileInfo # rest) w summary =
     (case process_file e p fileInfo w summary of
        (w1, summary1) \<Rightarrow> process_files e p rest w1 summary1)"

definition ProcessFolder ::
  "env \<Rightarrow> IWorkProcessor \<Rightarrow> world \<Rightarrow> world \<times> ProcessingSummary \<times> error option" where
  "ProcessFolder e p w =
     (let (start, w0) = time_Now e w;
          summary = \<lparr>TotalFiles = 0, Successful = 0, Failed = 0, Errors = [],
                     ProcessedFiles = [], StartTime = start, EndTime = 0, Duration = 0\<rparr>
      in case GetIWorkFiles e (boxClient p) w0 of
           (w1, Inl err) \<Rightarrow> (w1, summary, Some (GetIWorkFilesFailed err))
         | (w1, Inr iworkFiles) \<Rightarrow>
             (let summary = summary\<lparr>TotalFiles := int (length iworkFiles)\<rparr> in
              if length iworkFiles = 0 then (w1, summary, None)
              else
                (case process_files e p iworkFiles w1 summary of
                   (w2, summary) \<Rightarrow>
                     (let (t, w3) = time_Now e w2;
                          summary = summary\<lparr>EndTime := t\<rparr>;
                          summary = summary\<lparr>Duration := time_Sub (EndTime summary) (StartTime summary)\<rparr>
                      in (w3, summary, None)))))"

subsection \<open>GenerateReport and main\<close>

definition GenerateReport ::
  "env \<Rightarrow> IWorkProcessor \<Rightarrow> ProcessingSummary \<Rightarrow> world \<Rightarrow> world \<times> (error + path)" where
  "GenerateReport e p summary w =
     (let (now, w1) = time_Now e w;
          reportPath = path_join e (outputDir p)
                         (''processing_report_'' @ format_stamp e now @ ''.json'')
      in case marshal_indent e summary of
           Inl m \<Rightarrow> (w1, Inl (MarshalFailed m))
         | Inr reportData \<Rightarrow>
             (case os_WriteFile e reportPath reportData w1 of
                (w2, Some m) \<Rightarrow> (w2, Inl (WriteReportFailed m))
              | (w2, None) \<Rightarrow> (w2, Inr reportPath)))"

fun setupDirectories :: "env \<Rightarrow> path list \<Rightarrow> error option" where
  "setupDirectories e [] = None"
| "setupDirectories e (dir # dirs) =
     (case mkdir_error e dir of
        Some m \<Rightarrow> Some (CreateDirectoryFailed dir m)
      | None \<Rightarrow> setupDirectories e dirs)"

definition NewBoxClient :: "string \<Rightarrow> string \<Rightarrow> BoxClient" where
  "NewBoxClient accessToken folderID =
     \<lparr>config = \<lparr>AccessToken = accessToken, BaseURL = ''https://api.box.com/2.0'',
                 FolderID = folderID\<rparr>\<rparr>"

definition NewIWorkProcessor :: "BoxClient \<Rightarrow> path \<Rightarrow> path \<Rightarrow> string \<Rightarrow> IWorkProcessor" where
  "NewIWorkProcessor bc tmp out fmt =
     \<lparr>boxClient = bc, tempDir = tmp, outputDir = out, format = fmt\<rparr>"

text \<open>
  How the Box mode of \<^verbatim>\<open>main\<close> ends: \<^verbatim>\<open>log.Fatalf\<close> with a message, or a return
  after the summary was printed, with the path of the report (empty when the report
  could not be written).
\<close>

datatype outcome = Fatal string | Completed ProcessingSummary path

text \<open>
  The Box mode of \<^verbatim>\<open>main\<close> from \<^verbatim>\<open>setupDirectories\<close> on, with the token, folder,
  directories and format it has resolved.
\<close>

definition box_main ::
  "env \<Rightarrow> string \<Rightarrow> string \<Rightarrow> path \<Rightarrow> path \<Rightarrow> string \<Rightarrow> world \<Rightarrow> world \<times> outcome" where
  "box_main e token folder output temp fmt w =
     (case setupDirectories e [temp, output] of
        Some err \<Rightarrow> (w, Fatal (''Failed to setup directories: '' @ Error err))
      | None \<Rightarrow>
          (let processor = NewIWorkProcessor (NewBoxClient token folder) temp output fmt in
           case ProcessFolder e processor w of
             (w1, summary, Some err) \<Rightarrow> (w1, Fatal (''Processing failed: '' @ Error err))
           | (w1, summary, None) \<Rightarrow>
               (case GenerateReport e processor summary w1 of
                  (w2, Inl err) \<Rightarrow> (w2, Completed summary [])
                | (w2, Inr reportPath) \<Rightarrow> (w2, Completed summary reportPath))))"

subsection \<open>What one candidate leaves in the summary\<close>

text \<open>
  For the statements about the loop: a candidate ends as a failure message or as a
  record. \<open>record_outcome\<close> enters one into a summary, \<open>outcome_of\<close> says that an
  outcome is about a given candidate, \<open>messages_of\<close> and \<open>records_of\<close> pick the
  messages and the records of a list of outcomes, in order.
\<close>

fun record_outcome :: "string + ProcessedFile \<Rightarrow> ProcessingSummary \<Rightarrow> ProcessingSummary" where
  "record_outcome (Inl m) s = s\<lparr>Failed := Failed s + 1, Errors := Errors s @ [m]\<rparr>"
| "record_outcome (Inr r) s =
     s\<lparr>Successful := Successful s + 1, ProcessedFiles := ProcessedFiles s @ [r]\<rparr>"

definition outcome_of :: "FileInfo \<Rightarrow> string + ProcessedFile \<Rightarrow> bool" where
  "outcome_of f out =
     (case out of
        Inl m \<Rightarrow> (\<exists>what cause. m = ''Failed to '' @ what @ '' '' @ Name f @ '': '' @ cause)
      | Inr r \<Rightarrow> OriginalFile r = Name f \<and> FileSize r = Size f)"

fun messages_of :: "(string + ProcessedFile) list \<Rightarrow> string list" where
  "messages_of [] = []"
| "messages_of (Inl m # outs) = m # messages_of outs"
| "messages_of (Inr r # outs) = messages_of outs"

fun records_of :: "(string + ProcessedFile) list \<Rightarrow> ProcessedFile list" where
  "records_of [] = []"
| "records_of (Inl m # outs) = records_of outs"
| "records_of (Inr r # outs) = r # records_of outs"

subsection \<open>An example outside\<close>

text \<open>
  A folder with \<^verbatim>\<open>Doc1.pages\<close>, \<^verbatim>\<open>Doc2.numbers\<close> and \<^verbatim>\<open>Image.png\<close> (an empty
  folder when the body of the listing is \<^verbatim>\<open>[]\<close>). The listing is answered as
  \<open>listing\<close> says; the first file downloads and converts; the download of the second
  is answered as \<open>doc2\<close> says. Nothing else fails.
\<close>

definition example_entries :: "entry list" where
  "example_entries =
     [\<lparr>eID = ''11'', eName = ''Doc1.pages'', eType = ''file'', eSize = 1024, eModifiedAt = 5\<rparr>,
      \<lparr>eID = ''12'', eName = ''Doc2.numbers'', eType = ''file'', eSize = 2048, eModifiedAt = 6\<rparr>,
      \<lparr>eID = ''13'', eName = ''Image.png'', eType = ''file'', eSize = 7, eModifiedAt = 7\<rparr>]"

definition example_convert ::
  "bytes \<Rightarrow> path \<Rightarrow> path \<Rightarrow> (path \<rightharpoonup> bytes) \<Rightarrow> (path \<rightharpoonup> bytes) \<times> string option" where
  "example_convert text inputPath outputPath fs =
     (case fs inputPath of
        None \<Rightarrow> (fs, Some ''no input'')
      | Some content \<Rightarrow> (fs(outputPath \<mapsto> text), None))"

definition example_env :: "http_outcome \<Rightarrow> http_outcome \<Rightarrow> env" where
  "example_env listing doc2 =
     \<lparr>new_request_error = (\<lambda>u. None),
      http_do = (\<lambda>r.
        if rurl r = ''https://api.box.com/2.0/folders/0/items'' then listing
        else if rurl r = ''https://api.box.com/2.0/files/11/content''
        then Response 200 ''200 OK'' (Body ''PAGES'' None)
        else doc2),
      json_decode = (\<lambda>b. if b = Body ''[]'' None then Inr [] else Inr example_entries),
      to_lower = ascii_ToLower,
      path_join = (\<lambda>dir name. dir @ ''/'' @ name),
      mkdir_error = (\<lambda>p. None),
      create_error = (\<lambda>p. None),
      write_error = (\<lambda>p. None),
      read_error = (\<lambda>p. None),
      remove_error = (\<lambda>p. None),
      convert_text = example_convert ''Hello'',
      convert_html = example_convert ''<p>Hello</p>'',
      clock = (\<lambda>n. 1000 + int n),
      format_rfc3339 = (\<lambda>t. ''T'' @ fmt_d t),
      format_stamp = (\<lambda>t. fmt_d t),
      duration_string = (\<lambda>d. fmt_d d @ ''ns''),
      marshal_indent = (\<lambda>s. Inr (''{total_files: '' @ fmt_d (TotalFiles s) @ ''}''))\<rparr>"

definition listing_ok :: http_outcome where
  "listing_ok = Response 200 ''200 OK'' (Body ''{}'' None)"

definition example_world :: world where
  "example_world = \<lparr>files = Map.empty, ticks = 0, sent = []\<rparr>"

definition example_processor :: "string \<Rightarrow> IWorkProcessor" where
  "example_processor fmt = NewIWorkProcessor (NewBoxClient ''tok'' ''0'') ''tmp'' ''out'' fmt"

definition example_run :: "world \<times> ProcessingSummary \<times> error option" where
  "example_run =
     ProcessFolder (example_env listing_ok (TransportError ''timeout''))
       (example_processor ''txt'') example_world"

definition example_doc2 :: FileInfo where
  "example_doc2 =
     \<lparr>ID = ''12'', Name = ''Doc2.numbers'', Size = 2048, Extension = ''.numbers'',
      ModifiedAt = 6\<rparr>"

definition example_report :: FileInfo where
  "example_report =
     \<lparr>ID = ''42'', Name = ''Report.pages'', Size = 5, Extension = ''.pages'', ModifiedAt = 5\<rparr>"

definition example_summary :: ProcessingSummary where
  "example_summary =
     \<lparr>TotalFiles = 1, Successful = 0, Failed = 0, Errors = [], ProcessedFiles = [],
      StartTime = 1000, EndTime = 0, Duration = 0\<rparr>"

text \<open>
  The example folder with both downloads answered, where one stage fails for
  \<^verbatim>\<open>Doc1.pages\<close>, the first candidate: creating its scratch file (stage
  \<^verbatim>\<open>download\<close>), converting it (stage \<^verbatim>\<open>convert\<close>) or reading the converted file back
  (stage \<^verbatim>\<open>enrich\<close>). \<^verbatim>\<open>Doc2.numbers\<close>, the second candidate, goes through.
\<close>

definition stage_fails_env :: "string \<Rightarrow> env" where
  "stage_fails_env stage =
     (example_env listing_ok (Response 200 ''200 OK'' (Body ''NUM'' None)))
       \<lparr>create_error := (\<lambda>q.
          if stage = ''download'' \<and> q = ''tmp/Doc1.pages'' then Some ''permission denied''
          else None),
        read_error := (\<lambda>q.
          if stage = ''enrich'' \<and> q = ''out/Doc1_extracted.txt'' then Some ''permission denied''
          else None),
        convert_text := (\<lambda>inputPath outputPath fs.
          if stage = ''convert'' \<and> inputPath = ''tmp/Doc1.pages'' then (fs, Some ''snap header'')
          else example_convert ''Hello'' inputPath outputPath fs)\<rparr>"

definition example_doc1 :: FileInfo where
  "example_doc1 =
     \<lparr>ID = ''11'', Name = ''Doc1.pages'', Size = 1024, Extension = ''.pages'',
      ModifiedAt = 5\<rparr>"

text \<open>The lines of a text: the pieces between its newline characters.\<close>

fun split_lines :: "string \<Rightarrow> string \<Rightarrow> string list" where
  "split_lines [] line = [line]"
| "split_lines (c # cs) line =
     (if c = CHR 0x0A then line # split_lines cs [] else split_lines cs (line @ [c]))"

definition lines_of :: "string \<Rightarrow> string list" where
  "lines_of s = split_lines s []"

section \<open>Theorems\<close>

subsection \<open>Evaluation\<close>

lemmas example_defs =
  example_env_def example_processor_def example_world_def example_entries_def example_convert_def
  listing_ok_def NewIWorkProcessor_def NewBoxClient_def
  example_run_def example_doc2_def example_report_def example_summary_def
  stage_fails_env_def example_doc1_def

lemmas model_defs =
  ProcessFolder_def GetIWorkFiles_def DownloadFile_def ConvertIWorkFile_def SaveFileWithMetadata_def
  process_file_def output_path_def metadata_buffer_def GenerateReport_def box_main_def
  list_url_def list_request_def download_url_def download_request_def
  time_Now_def time_Sub_def os_Create_def io_Copy_def os_ReadFile_def os_WriteFile_def os_Remove_def
  Ext_def TrimSuffix_def HasSuffix_def fmt_d_def ascii_ToLower_def ascii_lower_char_def
  lookup_bool_def supportedExtensions_def Let_def

lemma separator_line:
  "replicate 50 CHR ''-'' = ''--------------------------------------------------''"
  by code_simp

subsection \<open>The extension of a name\<close>

lemma Ext_scan_suffix:
  "\<exists>pre. rev cs @ passed = pre @ Ext_scan cs passed"
proof (induction cs arbitrary: passed)
  case Nil
  then show ?case by simp
next
  case (Cons c cs)
  show ?case
  proof (cases "c = CHR ''/''")
    case True
    then show ?thesis by simp
  next
    case False
    show ?thesis
    proof (cases "c = CHR ''.''")
      case True
      then show ?thesis using False by simp
    next
      case dot: False
      obtain pre where "rev cs @ (c # passed) = pre @ Ext_scan cs (c # passed)"
        using Cons.IH[of "c # passed"] by blast
      then show ?thesis using False dot by simp
    qed
  qed
qed

lemma Ext_suffix: "\<exists>base. name = base @ Ext name"
  using Ext_scan_suffix[of "rev name" "[]"] by (simp add: Ext_def)

lemma TrimSuffix_append: "TrimSuffix (base @ x) x = base"
  by (simp add: TrimSuffix_def HasSuffix_def)

subsection \<open>The filter\<close>

lemma lookup_supported:
  "lookup_bool supportedExtensions x =
     (x \<in> {''.pages'', ''.numbers'', ''.keynote'', ''.key'', ''.nmbrs''})"
  by (simp add: lookup_bool_def supportedExtensions_def)

lemma collect_iwork_append:
  "collect_iwork e entries acc = acc @ map (candidate_of e) (filter (isSupported e) entries)"
  by (induction entries arbitrary: acc)
     (simp_all add: Let_def lookup_supported isSupported_def candidate_of_def)

text \<open>
  C7. When the listing is answered with status 200 and a body that decodes to
  \<open>entries\<close>, \<^verbatim>\<open>GetIWorkFiles\<close> returns, in the order of the listing, one candidate for
  each entry that \<open>isSupported\<close> accepts and nothing else: an entry is kept if and only
  if its kind is \<^verbatim>\<open>file\<close> and the lower-case extension of its name is one of
  \<^verbatim>\<open>.pages\<close>, \<^verbatim>\<open>.numbers\<close>, \<^verbatim>\<open>.keynote\<close>, \<^verbatim>\<open>.key\<close>, \<^verbatim>\<open>.nmbrs\<close>. The predicate is
  a function of the entry (and of \<^verbatim>\<open>strings.ToLower\<close>), so asking twice gives the same
  answer.
\<close>

theorem GetIWorkFiles_filter:
  assumes "new_request_error e (list_url bc) = None"
    and "http_do e (list_request bc) = Response 200 status b"
    and "json_decode e b = Inr entries"
  shows "snd (GetIWorkFiles e bc w) =
           Inr (map (candidate_of e) (filter (isSupported e) entries))"
  using assms by (simp add: GetIWorkFiles_def collect_iwork_append)

theorem GetIWorkFiles_filter_witness:
  "snd (GetIWorkFiles (example_env listing_ok (TransportError ''timeout''))
          (NewBoxClient ''tok'' ''0'') example_world) =
     Inr [\<lparr>ID = ''11'', Name = ''Doc1.pages'', Size = 1024, Extension = ''.pages'', ModifiedAt = 5\<rparr>,
          \<lparr>ID = ''12'', Name = ''Doc2.numbers'', Size = 2048, Extension = ''.numbers'', ModifiedAt = 6\<rparr>]"
proof -
  let ?e = "example_env listing_ok (TransportError ''timeout'')"
  let ?bc = "NewBoxClient ''tok'' ''0''"
  have 1: "new_request_error ?e (list_url ?bc) = None"
    by (simp add: example_env_def)
  have 2: "http_do ?e (list_request ?bc) = Response 200 ''200 OK'' (Body ''{}'' None)"
    by (simp add: example_env_def list_request_def list_url_def NewBoxClient_def listing_ok_def)
  have 3: "json_decode ?e (Body ''{}'' None) = Inr example_entries"
    by (simp add: example_env_def)
  have 4: "map (candidate_of ?e) (filter (isSupported ?e) example_entries) =
     [\<lparr>ID = ''11'', Name = ''Doc1.pages'', Size = 1024, Extension = ''.pages'', ModifiedAt = 5\<rparr>,
      \<lparr>ID = ''12'', Name = ''Doc2.numbers'', Size = 2048, Extension = ''.numbers'', ModifiedAt = 6\<rparr>]"
    by (simp add: example_entries_def isSupported_def candidate_of_def example_env_def
        Ext_def ascii_ToLower_def ascii_lower_char_def)
  show ?thesis
    using GetIWorkFiles_filter[OF 1 2 3, of example_world] 4 by simp
qed

subsection \<open>The output path\<close>

text \<open>
  C8. The output path of a candidate is the output directory joined with the base name
  (the name without its extension) followed by \<^verbatim>\<open>_extracted.txt\<close> when the format is
  \<^verbatim>\<open>txt\<close> and by \<^verbatim>\<open>_converted.html\<close> otherwise; two names that differ in their
  extension only get the same output path.
\<close>

theorem output_path_from_base_name:
  "(\<exists>base. name = base @ Ext name \<and>
      output_path e p name =
        path_join e (outputDir p)
          (base @ (if format p = ''txt'' then ''_extracted.txt'' else ''_converted.html''))) \<and>
   (Ext (b @ x) = x \<and> Ext (b @ y) = y \<longrightarrow> output_path e p (b @ x) = output_path e p (b @ y))"
proof -
  obtain base where B: "name = base @ Ext name"
    using Ext_suffix by blast
  have "TrimSuffix name (Ext name) = base"
    using TrimSuffix_append[of base "Ext name"] B by simp
  then have "output_path e p name =
        path_join e (outputDir p)
          (base @ (if format p = ''txt'' then ''_extracted.txt'' else ''_converted.html''))"
    by (simp add: output_path_def)
  with B have first: "\<exists>base. name = base @ Ext name \<and>
      output_path e p name =
        path_join e (outputDir p)
          (base @ (if format p = ''txt'' then ''_extracted.txt'' else ''_converted.html''))"
    by blast
  have "output_path e p (b @ x) = output_path e p (b @ y)" if "Ext (b @ x) = x" "Ext (b @ y) = y"
    using that TrimSuffix_append[of b x] TrimSuffix_append[of b y]
    by (simp add: output_path_def)
  with first show ?thesis by blast
qed

theorem output_path_from_base_name_witness:
  "output_path (example_env listing_ok listing_ok) (example_processor ''txt'') ''Report.pages'' =
     ''out/Report_extracted.txt'' \<and>
   output_path (example_env listing_ok listing_ok) (example_processor ''html'') ''Report.pages'' =
     output_path (example_env listing_ok listing_ok) (example_processor ''html'') ''Report.key'' \<and>
   output_path (example_env listing_ok listing_ok) (example_processor ''html'') ''Report.key'' =
     ''out/Report_converted.html''"
proof -
  let ?e = "example_env listing_ok listing_ok"
  have x: "Ext (''Report'' @ ''.pages'') = ''.pages''" and y: "Ext (''Report'' @ ''.key'') = ''.key''"
    by (simp_all add: Ext_def)
  have same: "output_path ?e (example_processor ''html'') (''Report'' @ ''.pages'') =
      output_path ?e (example_processor ''html'') (''Report'' @ ''.key'')"
    using output_path_from_base_name[of "''Report.pages''" ?e "example_processor ''html''"
        "''Report''" "''.pages''" "''.key''"] x y by blast
  have "output_path ?e (example_processor ''txt'') ''Report.pages'' = ''out/Report_extracted.txt''"
    by (simp add: output_path_def Ext_def TrimSuffix_def HasSuffix_def example_processor_def
        NewIWorkProcessor_def example_env_def)
  moreover have "output_path ?e (example_processor ''html'') ''Report.key'' = ''out/Report_converted.html''"
    by (simp add: output_path_def Ext_def TrimSuffix_def HasSuffix_def example_processor_def
        NewIWorkProcessor_def example_env_def)
  ultimately show ?thesis using same by simp
qed

subsection \<open>One outcome for each candidate\<close>

lemma time_Now_simps:
  "fst (time_Now e w) = clock e (ticks w)"
  "files (snd (time_Now e w)) = files w"
  "sent (snd (time_Now e w)) = sent w"
  by (simp_all add: time_Now_def)

lemma process_file_outcome:
  "\<exists>out. outcome_of f out \<and> snd (process_file e p f w s) = record_outcome out s"
proof -
  obtain t0 w0 where T: "time_Now e w = (t0, w0)"
    by (cases "time_Now e w")
  obtain w1 d where D: "DownloadFile e (boxClient p) (ID f) (Name f) (tempDir p) w0 = (w1, d)"
    by (cases "DownloadFile e (boxClient p) (ID f) (Name f) (tempDir p) w0")
  show ?thesis
  proof (cases d)
    case (Inl err)
    let ?m = "''Failed to download '' @ Name f @ '': '' @ Error err"
    have "outcome_of f (Inl ?m)"
      unfolding outcome_of_def by (simp add: exI[of _ "''download''"])
    moreover have "snd (process_file e p f w s) = record_outcome (Inl ?m) s"
      by (simp add: process_file_def T D Inl)
    ultimately show ?thesis by blast
  next
    case (Inr localPath)
    obtain w2 c where C: "ConvertIWorkFile e p localPath (output_path e p (Name f)) w1 = (w2, c)"
      by (cases "ConvertIWorkFile e p localPath (output_path e p (Name f)) w1")
    show ?thesis
    proof (cases c)
      case (Some err)
      let ?m = "''Failed to convert '' @ Name f @ '': '' @ Error err"
      have "outcome_of f (Inl ?m)"
        unfolding outcome_of_def by (simp add: exI[of _ "''convert''"])
      moreover have "snd (process_file e p f w s) = record_outcome (Inl ?m) s"
        by (simp add: process_file_def T D Inr C Some)
      ultimately show ?thesis by blast
    next
      case None
      obtain w3 m where M:
        "SaveFileWithMetadata e p localPath (output_path e p (Name f)) f w2 = (w3, m)"
        by (cases "SaveFileWithMetadata e p localPath (output_path e p (Name f)) f w2")
      show ?thesis
      proof (cases m)
        case (Inl err)
        let ?m = "''Failed to save enhanced file for '' @ Name f @ '': '' @ Error err"
        have "outcome_of f (Inl ?m)"
          unfolding outcome_of_def by (simp add: exI[of _ "''save enhanced file for''"])
        moreover have "snd (process_file e p f w s) = record_outcome (Inl ?m) s"
          by (simp add: process_file_def T D Inr C None M Inl)
        ultimately show ?thesis by blast
      next
        case (Inr finalPath)
        obtain t w4 where T4: "time_Now e w3 = (t, w4)"
          by (cases "time_Now e w3")
        let ?r = "\<lparr>OriginalFile = Name f, OutputPath = finalPath, FileSize = Size f,
                   ProcessTime = duration_string e (time_Sub t t0)\<rparr>"
        have "outcome_of f (Inr ?r)"
          by (simp add: outcome_of_def)
        moreover have "snd (process_file e p f w s) = record_outcome (Inr ?r) s"
          using \<open>d = Inr localPath\<close> by (simp add: process_file_def T D C None M Inr T4)
        ultimately show ?thesis by blast
      qed
    qed
  qed
qed

lemma process_files_outcomes:
  "\<exists>outs. list_all2 outcome_of fs outs \<and>
     snd (process_files e p fs w s) = foldl (\<lambda>s out. record_outcome out s) s outs"
proof (induction fs arbitrary: w s)
  case Nil
  then show ?case by simp
next
  case (Cons f fs)
  obtain w1 s1 where P: "process_file e p f w s = (w1, s1)"
    by (cases "process_file e p f w s")
  obtain out where O: "outcome_of f out" "s1 = record_outcome out s"
    using process_file_outcome[of f e p w s] P by auto
  obtain outs where R: "list_all2 outcome_of fs outs"
      "snd (process_files e p fs w1 s1) = foldl (\<lambda>s out. record_outcome out s) s1 outs"
    using Cons.IH[of w1 s1] by blast
  have "list_all2 outcome_of (f # fs) (out # outs)"
    using O R by simp
  moreover have "snd (process_files e p (f # fs) w s) =
      foldl (\<lambda>s out. record_outcome out s) s (out # outs)"
    using P O R by simp
  ultimately show ?case by blast
qed

lemma foldl_record_outcome:
  "Errors (foldl (\<lambda>s out. record_outcome out s) s outs) = Errors s @ messages_of outs \<and>
   ProcessedFiles (foldl (\<lambda>s out. record_outcome out s) s outs) = ProcessedFiles s @ records_of outs \<and>
   Failed (foldl (\<lambda>s out. record_outcome out s) s outs) = Failed s + int (length (messages_of outs)) \<and>
   Successful (foldl (\<lambda>s out. record_outcome out s) s outs) = Successful s + int (length (records_of outs)) \<and>
   TotalFiles (foldl (\<lambda>s out. record_outcome out s) s outs) = TotalFiles s \<and>
   StartTime (foldl (\<lambda>s out. record_outcome out s) s outs) = StartTime s"
proof (induction outs arbitrary: s)
  case Nil
  then show ?case by simp
next
  case (Cons out outs)
  then show ?case by (cases out) simp_all
qed

lemma length_outcomes:
  "length (messages_of outs) + length (records_of outs) = length outs"
  by (induction outs rule: messages_of.induct) simp_all

lemma ProcessFolder_listing_failed:
  assumes "GetIWorkFiles e (boxClient p) (snd (time_Now e w)) = (w1, Inl er)"
  shows "ProcessFolder e p w =
    (w1, \<lparr>TotalFiles = 0, Successful = 0, Failed = 0, Errors = [], ProcessedFiles = [],
          StartTime = clock e (ticks w), EndTime = 0, Duration = 0\<rparr>,
     Some (GetIWorkFilesFailed er))"
  using assms by (simp add: ProcessFolder_def time_Now_def)

lemma ProcessFolder_no_candidates:
  assumes "GetIWorkFiles e (boxClient p) (snd (time_Now e w)) = (w1, Inr [])"
  shows "ProcessFolder e p w =
    (w1, \<lparr>TotalFiles = 0, Successful = 0, Failed = 0, Errors = [], ProcessedFiles = [],
          StartTime = clock e (ticks w), EndTime = 0, Duration = 0\<rparr>, None)"
  using assms by (simp add: ProcessFolder_def time_Now_def)

lemma ProcessFolder_listed:
  assumes G: "GetIWorkFiles e (boxClient p) (snd (time_Now e w)) = (w1, Inr fs)"
  shows "\<exists>outs. list_all2 outcome_of fs outs \<and>
     snd (snd (ProcessFolder e p w)) = None \<and>
     TotalFiles (fst (snd (ProcessFolder e p w))) = int (length fs) \<and>
     Successful (fst (snd (ProcessFolder e p w))) = int (length (records_of outs)) \<and>
     Failed (fst (snd (ProcessFolder e p w))) = int (length (messages_of outs)) \<and>
     Errors (fst (snd (ProcessFolder e p w))) = messages_of outs \<and>
     ProcessedFiles (fst (snd (ProcessFolder e p w))) = records_of outs"
proof (cases fs)
  case Nil
  have "list_all2 outcome_of fs []" using Nil by simp
  then show ?thesis
    using ProcessFolder_no_candidates[of e p w w1] G Nil
    by (intro exI[of _ "[]"]) simp
next
  case (Cons f rest)
  let ?s0 = "\<lparr>TotalFiles = int (length fs), Successful = 0, Failed = 0, Errors = [],
      ProcessedFiles = [], StartTime = clock e (ticks w), EndTime = 0, Duration = 0\<rparr>"
  obtain outs where O: "list_all2 outcome_of fs outs"
    "snd (process_files e p fs w1 ?s0) = foldl (\<lambda>s out. record_outcome out s) ?s0 outs"
    using process_files_outcomes[of fs e p w1 ?s0] by blast
  obtain w2 s2 where P: "process_files e p fs w1 ?s0 = (w2, s2)"
    by (cases "process_files e p fs w1 ?s0")
  have s2: "s2 = foldl (\<lambda>s out. record_outcome out s) ?s0 outs"
    using O P by simp
  have PF: "ProcessFolder e p w =
      (snd (time_Now e w2),
       s2\<lparr>EndTime := fst (time_Now e w2),
          Duration := time_Sub (fst (time_Now e w2)) (StartTime s2)\<rparr>, None)"
    using G P Cons by (simp add: ProcessFolder_def time_Now_def Let_def)
  show ?thesis
    using O(1) foldl_record_outcome[of ?s0 outs]
    by (intro exI[of _ outs]) (simp add: PF s2)
qed

lemma example_run_result:
  "example_run =
   (\<lparr>files = [''out/Doc1_extracted.txt'' \<mapsto>
        ''# Extracted from: Doc1.pages\<newline># File ID: 11\<newline># Size: 1024 bytes\<newline># Modified: T5\<newline># Extracted: T1002\<newline># Extension: .pages\<newline>\<newline>--------------------------------------------------\<newline>\<newline>Hello''],
      ticks = 6,
      sent = [list_request (NewBoxClient ''tok'' ''0''),
              download_request (NewBoxClient ''tok'' ''0'') ''11'',
              download_request (NewBoxClient ''tok'' ''0'') ''12'']\<rparr>,
    \<lparr>TotalFiles = 2, Successful = 1, Failed = 1,
     Errors = [''Failed to download Doc2.numbers: failed to download file: timeout''],
     ProcessedFiles =
       [\<lparr>OriginalFile = ''Doc1.pages'', OutputPath = ''out/Doc1_extracted.txt'',
          FileSize = 1024, ProcessTime = ''2ns''\<rparr>],
     StartTime = 1000, EndTime = 1005, Duration = 5\<rparr>,
    None)"
  by (simp add: model_defs example_defs decimal.simps fun_eq_iff separator_line)

text \<open>
  C1. In the summary that \<^verbatim>\<open>ProcessFolder\<close> returns, on every path, the successes and
  the failures add up to the total, there are as many records as successes and as many
  messages as failures; and when the listing gave the candidates \<open>fs\<close>, there is one
  outcome for each of them, in order, each a message that names the candidate or a
  record of it, such that the messages are the error list and the records the list of
  processed files.
\<close>

theorem ProcessFolder_accounting:
  assumes "ProcessFolder e p w = (w', s, err)"
  shows "Successful s + Failed s = TotalFiles s \<and>
         int (length (ProcessedFiles s)) = Successful s \<and>
         int (length (Errors s)) = Failed s \<and>
         (\<forall>w1 fs. GetIWorkFiles e (boxClient p) (snd (time_Now e w)) = (w1, Inr fs) \<longrightarrow>
            (\<exists>outs. list_all2 outcome_of fs outs \<and>
               Errors s = messages_of outs \<and> ProcessedFiles s = records_of outs))"
proof -
  obtain w1 r where G: "GetIWorkFiles e (boxClient p) (snd (time_Now e w)) = (w1, r)"
    by (cases "GetIWorkFiles e (boxClient p) (snd (time_Now e w))")
  have s: "s = fst (snd (ProcessFolder e p w))"
    using assms by simp
  show ?thesis
  proof (cases r)
    case (Inl er)
    then show ?thesis
      using ProcessFolder_listing_failed[of e p w w1 er] G s by simp
  next
    case (Inr fs)
    obtain outs where O: "list_all2 outcome_of fs outs"
      "TotalFiles s = int (length fs)"
      "Successful s = int (length (records_of outs))"
      "Failed s = int (length (messages_of outs))"
      "Errors s = messages_of outs"
      "ProcessedFiles s = records_of outs"
      using ProcessFolder_listed[of e p w w1 fs] G Inr s by auto
    have "length fs = length outs"
      using O(1) by (rule list_all2_lengthD)
    then have "Successful s + Failed s = TotalFiles s"
      using O length_outcomes[of outs] by simp
    then show ?thesis
      using O G Inr by auto
  qed
qed

theorem ProcessFolder_accounting_witness:
  "TotalFiles (fst (snd example_run)) = 2 \<and>
   Successful (fst (snd example_run)) + Failed (fst (snd example_run)) =
     TotalFiles (fst (snd example_run)) \<and>
   int (length (ProcessedFiles (fst (snd example_run)))) = Successful (fst (snd example_run)) \<and>
   int (length (Errors (fst (snd example_run)))) = Failed (fst (snd example_run))"
  using ProcessFolder_accounting[of "example_env listing_ok (TransportError ''timeout'')"
      "example_processor ''txt''" example_world
      "fst example_run" "fst (snd example_run)" "snd (snd example_run)"]
  by (simp add: example_run_def[symmetric]) (simp add: example_run_result)

subsection \<open>The order of processing\<close>

lemma os_Remove_sent: "sent (os_Remove e q w) = sent w"
  by (simp add: os_Remove_def split: option.splits)

lemma DownloadFile_sent:
  "sent (fst (DownloadFile e bc i n t w)) =
     sent w @ (if new_request_error e (download_url bc i) = None
               then [download_request bc i] else [])"
  by (simp add: DownloadFile_def os_Create_def io_Copy_def Let_def
      split: option.splits http_outcome.splits body.splits)

lemma ConvertIWorkFile_sent: "sent (fst (ConvertIWorkFile e p a b w)) = sent w"
  by (simp add: ConvertIWorkFile_def split: prod.splits)

lemma SaveFileWithMetadata_sent: "sent (fst (SaveFileWithMetadata e p a b f w)) = sent w"
  by (simp add: SaveFileWithMetadata_def os_WriteFile_def time_Now_def
      split: sum.splits option.splits)

lemma process_file_sent:
  "sent (fst (process_file e p f w s)) =
     sent w @ (if new_request_error e (download_url (boxClient p) (ID f)) = None
               then [download_request (boxClient p) (ID f)] else [])"
proof -
  obtain t0 w0 where T: "time_Now e w = (t0, w0)"
    by (cases "time_Now e w")
  have w0: "sent w0 = sent w"
    using T time_Now_simps(3)[of e w] by simp
  obtain w1 d where D: "DownloadFile e (boxClient p) (ID f) (Name f) (tempDir p) w0 = (w1, d)"
    by (cases "DownloadFile e (boxClient p) (ID f) (Name f) (tempDir p) w0")
  have w1: "sent w1 = sent w @ (if new_request_error e (download_url (boxClient p) (ID f)) = None
               then [download_request (boxClient p) (ID f)] else [])"
    using DownloadFile_sent[of e "boxClient p" "ID f" "Name f" "tempDir p" w0] D w0 by simp
  show ?thesis
  proof (cases d)
    case (Inl err)
    then show ?thesis using w1 by (simp add: process_file_def T D)
  next
    case (Inr localPath)
    obtain w2 c where C: "ConvertIWorkFile e p localPath (output_path e p (Name f)) w1 = (w2, c)"
      by (cases "ConvertIWorkFile e p localPath (output_path e p (Name f)) w1")
    have w2: "sent w2 = sent w1"
      using ConvertIWorkFile_sent[of e p localPath "output_path e p (Name f)" w1] C by simp
    obtain w3 m where M:
      "SaveFileWithMetadata e p localPath (output_path e p (Name f)) f w2 = (w3, m)"
      by (cases "SaveFileWithMetadata e p localPath (output_path e p (Name f)) f w2")
    have w3: "sent w3 = sent w2"
      using SaveFileWithMetadata_sent[of e p localPath "output_path e p (Name f)" f w2] M by simp
    have w4: "sent (snd (time_Now e w3)) = sent w3"
      by (rule time_Now_simps)
    show ?thesis
      using Inr w1 w2 w3 w4
      by (cases c; cases m) (simp_all add: process_file_def T D C M os_Remove_sent case_prod_beta)
  qed
qed

lemma process_files_sent:
  "sent (fst (process_files e p fs w s)) =
     sent w @ map (\<lambda>f. download_request (boxClient p) (ID f))
       (filter (\<lambda>f. new_request_error e (download_url (boxClient p) (ID f)) = None) fs)"
proof (induction fs arbitrary: w s)
  case Nil
  then show ?case by simp
next
  case (Cons f fs)
  obtain w1 s1 where P: "process_file e p f w s = (w1, s1)"
    by (cases "process_file e p f w s")
  have "sent w1 = sent w @ (if new_request_error e (download_url (boxClient p) (ID f)) = None
               then [download_request (boxClient p) (ID f)] else [])"
    using process_file_sent[of e p f w s] P by simp
  then show ?case
    using Cons.IH[of w1 s1] P by simp
qed

lemma records_in_order:
  "list_all2 outcome_of fs outs \<Longrightarrow>
     subseq (map OriginalFile (records_of outs)) (map Name fs)"
proof (induction fs outs rule: list_all2_induct)
  case Nil
  then show ?case by simp
next
  case (Cons f fs out outs)
  then show ?case
    by (cases out) (simp_all add: outcome_of_def list_emb_Cons)
qed

lemma messages_in_order:
  "list_all2 outcome_of fs outs \<Longrightarrow>
     \<exists>failed. subseq failed fs \<and> list_all2 (\<lambda>f m. outcome_of f (Inl m)) failed (messages_of outs)"
proof (induction fs outs rule: list_all2_induct)
  case Nil
  then show ?case by simp
next
  case (Cons f fs out outs)
  then obtain failed where F: "subseq failed fs"
      "list_all2 (\<lambda>f m. outcome_of f (Inl m)) failed (messages_of outs)"
    by blast
  show ?case
  proof (cases out)
    case (Inl m)
    have "subseq (f # failed) (f # fs)" using F(1) by simp
    moreover have "list_all2 (\<lambda>f m. outcome_of f (Inl m)) (f # failed) (messages_of (out # outs))"
      using F(2) Cons.hyps(1) Inl by simp
    ultimately show ?thesis by blast
  next
    case (Inr r)
    have "subseq failed (f # fs)" using F(1) by (rule list_emb_Cons)
    moreover have "list_all2 (\<lambda>f m. outcome_of f (Inl m)) failed (messages_of (out # outs))"
      using F(2) Inr by simp
    ultimately show ?thesis by blast
  qed
qed

lemma ProcessFolder_sent:
  assumes G: "GetIWorkFiles e (boxClient p) (snd (time_Now e w)) = (w1, Inr fs)"
  shows "sent (fst (ProcessFolder e p w)) =
     sent w1 @ map (\<lambda>f. download_request (boxClient p) (ID f))
       (filter (\<lambda>f. new_request_error e (download_url (boxClient p) (ID f)) = None) fs)"
proof (cases fs)
  case Nil
  then show ?thesis
    using ProcessFolder_no_candidates[of e p w w1] G by simp
next
  case (Cons f rest)
  let ?s0 = "\<lparr>TotalFiles = int (length fs), Successful = 0, Failed = 0, Errors = [],
      ProcessedFiles = [], StartTime = clock e (ticks w), EndTime = 0, Duration = 0\<rparr>"
  obtain w2 s2 where P: "process_files e p fs w1 ?s0 = (w2, s2)"
    by (cases "process_files e p fs w1 ?s0")
  have "fst (ProcessFolder e p w) = snd (time_Now e w2)"
    using G P Cons by (simp add: ProcessFolder_def time_Now_def Let_def)
  moreover have "sent w2 = sent w1 @ map (\<lambda>f. download_request (boxClient p) (ID f))
       (filter (\<lambda>f. new_request_error e (download_url (boxClient p) (ID f)) = None) fs)"
    using process_files_sent[of e p fs w1 ?s0] P by simp
  ultimately show ?thesis
    by (simp add: time_Now_simps)
qed

text \<open>
  C9. When the listing succeeds, the candidates \<open>fs\<close> are a subsequence of the entries
  of the listing (the filter keeps the order); the requests sent are the listing request
  and then one download request for each candidate in that order, at most one per
  candidate (none for a candidate whose request cannot be built), so nothing is
  reordered and nothing is tried twice; the original names of the processed files are a
  subsequence of the candidates' names, and the error messages are, in order, about a
  subsequence of the candidates.
\<close>

theorem candidates_processed_in_listing_order:
  assumes "new_request_error e (list_url (boxClient p)) = None"
    and "http_do e (list_request (boxClient p)) = Response 200 status b"
    and "json_decode e b = Inr entries"
    and "ProcessFolder e p w = (w', s, err)"
  shows "\<exists>fs. snd (GetIWorkFiles e (boxClient p) (snd (time_Now e w))) = Inr fs \<and>
     subseq fs (map (candidate_of e) entries) \<and>
     sent w' = sent w @ list_request (boxClient p) #
       map (\<lambda>f. download_request (boxClient p) (ID f))
         (filter (\<lambda>f. new_request_error e (download_url (boxClient p) (ID f)) = None) fs) \<and>
     subseq (map OriginalFile (ProcessedFiles s)) (map Name fs) \<and>
     (\<exists>failed. subseq failed fs \<and>
        list_all2 (\<lambda>f m. outcome_of f (Inl m)) failed (Errors s))"
proof -
  let ?w0 = "snd (time_Now e w)"
  let ?fs = "map (candidate_of e) (filter (isSupported e) entries)"
  have G: "GetIWorkFiles e (boxClient p) ?w0 = (?w0\<lparr>sent := sent ?w0 @ [list_request (boxClient p)]\<rparr>, Inr ?fs)"
    using assms(1-3) by (simp add: GetIWorkFiles_def collect_iwork_append)
  have order: "subseq ?fs (map (candidate_of e) entries)"
    by (simp add: subseq_map)
  have s: "s = fst (snd (ProcessFolder e p w))" and w': "w' = fst (ProcessFolder e p w)"
    using assms(4) by simp_all
  obtain outs where O: "list_all2 outcome_of ?fs outs"
      "Errors s = messages_of outs" "ProcessedFiles s = records_of outs"
    using ProcessFolder_listed[OF G] s by auto
  have trace: "sent w' = sent w @ list_request (boxClient p) #
       map (\<lambda>f. download_request (boxClient p) (ID f))
         (filter (\<lambda>f. new_request_error e (download_url (boxClient p) (ID f)) = None) ?fs)"
    using ProcessFolder_sent[OF G] w' by (simp add: time_Now_simps)
  have "subseq (map OriginalFile (ProcessedFiles s)) (map Name ?fs)"
    using records_in_order[OF O(1)] O(3) by simp
  moreover have "\<exists>failed. subseq failed ?fs \<and>
        list_all2 (\<lambda>f m. outcome_of f (Inl m)) failed (Errors s)"
    using messages_in_order[OF O(1)] O(2) by simp
  ultimately show ?thesis
    using G order trace by (intro exI[of _ ?fs]) simp
qed

theorem candidates_processed_in_listing_order_witness:
  "sent (fst example_run) =
     [list_request (NewBoxClient ''tok'' ''0''),
      download_request (NewBoxClient ''tok'' ''0'') ''11'',
      download_request (NewBoxClient ''tok'' ''0'') ''12''] \<and>
   map OriginalFile (ProcessedFiles (fst (snd example_run))) = [''Doc1.pages''] \<and>
   Errors (fst (snd example_run)) =
     [''Failed to download Doc2.numbers: failed to download file: timeout'']"
proof -
  let ?e = "example_env listing_ok (TransportError ''timeout'')"
  let ?p = "example_processor ''txt''"
  have 1: "new_request_error ?e (list_url (boxClient ?p)) = None"
    by (simp add: example_env_def)
  have 2: "http_do ?e (list_request (boxClient ?p)) = Response 200 ''200 OK'' (Body ''{}'' None)"
    by (simp add: example_defs list_request_def list_url_def)
  have 3: "json_decode ?e (Body ''{}'' None) = Inr example_entries"
    by (simp add: example_env_def)
  have 4: "ProcessFolder ?e ?p example_world =
      (fst example_run, fst (snd example_run), snd (snd example_run))"
    by (simp add: example_run_def)
  show ?thesis
    using candidates_processed_in_listing_order[OF 1 2 3 4]
    by (simp add: example_run_result)
qed

subsection \<open>What ends the run\<close>

lemma GetIWorkFiles_frame:
  "files (fst (GetIWorkFiles e bc w)) = files w \<and>
   ticks (fst (GetIWorkFiles e bc w)) = ticks w \<and>
   (sent (fst (GetIWorkFiles e bc w)) = sent w \<or>
    sent (fst (GetIWorkFiles e bc w)) = sent w @ [list_request bc])"
  by (simp add: GetIWorkFiles_def Let_def split: option.splits http_outcome.splits sum.splits)

lemma ProcessFolder_loop:
  assumes G: "GetIWorkFiles e (boxClient p) (snd (time_Now e w)) = (w1, Inr fs)"
  shows "Errors (fst (snd (ProcessFolder e p w))) =
       Errors (snd (process_files e p fs w1
         \<lparr>TotalFiles = int (length fs), Successful = 0, Failed = 0, Errors = [],
          ProcessedFiles = [], StartTime = clock e (ticks w), EndTime = 0, Duration = 0\<rparr>)) \<and>
     ProcessedFiles (fst (snd (ProcessFolder e p w))) =
       ProcessedFiles (snd (process_files e p fs w1
         \<lparr>TotalFiles = int (length fs), Successful = 0, Failed = 0, Errors = [],
          ProcessedFiles = [], StartTime = clock e (ticks w), EndTime = 0, Duration = 0\<rparr>))"
proof (cases fs)
  case Nil
  then show ?thesis
    using ProcessFolder_no_candidates[of e p w w1] G by simp
next
  case (Cons f rest)
  let ?s0 = "\<lparr>TotalFiles = int (length fs), Successful = 0, Failed = 0, Errors = [],
      ProcessedFiles = [], StartTime = clock e (ticks w), EndTime = 0, Duration = 0\<rparr>"
  obtain w2 s2 where P: "process_files e p fs w1 ?s0 = (w2, s2)"
    by (cases "process_files e p fs w1 ?s0")
  have "fst (snd (ProcessFolder e p w)) =
      s2\<lparr>EndTime := fst (time_Now e w2),
         Duration := time_Sub (fst (time_Now e w2)) (StartTime s2)\<rparr>"
    using G P Cons by (simp add: ProcessFolder_def time_Now_def Let_def)
  then show ?thesis
    using P by simp
qed

lemma process_files_download_failed:
  assumes "DownloadFile e (boxClient p) (ID f) (Name f) (tempDir p) (snd (time_Now e w0)) =
      (wd, Inl errd)"
  shows "process_files e p (f # rest) w0 s0 =
      process_files e p rest wd
        (s0\<lparr>Failed := Failed s0 + 1,
            Errors := Errors s0 @
              [''Failed to download '' @ Name f @ '': '' @ Error errd]\<rparr>)"
  using assms by (simp add: process_file_def case_prod_beta)

lemma process_files_convert_failed:
  assumes "DownloadFile e (boxClient p) (ID f) (Name f) (tempDir p) (snd (time_Now e w0)) =
      (wd, Inr localPath)"
    and "ConvertIWorkFile e p localPath (output_path e p (Name f)) wd = (wc, Some errc)"
  shows "process_files e p (f # rest) w0 s0 =
      process_files e p rest (os_Remove e localPath wc)
        (s0\<lparr>Failed := Failed s0 + 1,
            Errors := Errors s0 @
              [''Failed to convert '' @ Name f @ '': '' @ Error errc]\<rparr>)"
  using assms by (simp add: process_file_def case_prod_beta)

lemma process_files_enrich_failed:
  assumes "DownloadFile e (boxClient p) (ID f) (Name f) (tempDir p) (snd (time_Now e w0)) =
      (wd, Inr localPath)"
    and "ConvertIWorkFile e p localPath (output_path e p (Name f)) wd = (wc, None)"
    and "SaveFileWithMetadata e p localPath (output_path e p (Name f)) f wc = (we, Inl erre)"
  shows "process_files e p (f # rest) w0 s0 =
      process_files e p rest (os_Remove e localPath we)
        (s0\<lparr>Failed := Failed s0 + 1,
            Errors := Errors s0 @
              [''Failed to save enhanced file for '' @ Name f @ '': '' @ Error erre]\<rparr>)"
  using assms by (simp add: process_file_def case_prod_beta)

text \<open>
  C5. When the directories are set up and the listing fails, \<^verbatim>\<open>main\<close> ends in
  \<^verbatim>\<open>log.Fatalf\<close>; no file was written (no report, no scratch file) and at most the
  listing request was sent. When the listing succeeds, \<^verbatim>\<open>ProcessFolder\<close> returns no
  error whatever happens to the candidates, \<^verbatim>\<open>main\<close> goes on to \<^verbatim>\<open>GenerateReport\<close> and
  returns, the summary accounts for every candidate, and its error list and its list of
  processed files are those the loop over the candidates leaves. In the loop, whatever
  the outcome of a candidate, it is entered in the summary and the loop goes on with the
  rest; and a candidate whose download, conversion or enrichment fails adds one to the
  failure count and appends to the error list the message that names it and the cause
  (\<^verbatim>\<open>Failed to download\<close>, \<^verbatim>\<open>Failed to convert\<close>, \<^verbatim>\<open>Failed to save enhanced file for\<close>),
  leaves the successes and the processed files as they were, and the loop goes on with
  the next candidate.
\<close>

theorem listing_failure_is_fatal_candidate_failure_is_not:
  "(setupDirectories e [temp, outd] = None \<and>
    GetIWorkFiles e (NewBoxClient token folder) (snd (time_Now e w)) = (w1, Inl er) \<longrightarrow>
      box_main e token folder outd temp fmt w =
        (w1, Fatal (''Processing failed: failed to get iWork files: '' @ Error er)) \<and>
      files w1 = files w \<and>
      (sent w1 = sent w \<or> sent w1 = sent w @ [list_request (NewBoxClient token folder)])) \<and>
   (setupDirectories e [temp, outd] = None \<and>
    GetIWorkFiles e (NewBoxClient token folder) (snd (time_Now e w)) = (w1, Inr fs) \<longrightarrow>
      (\<exists>w2 s. ProcessFolder e (NewIWorkProcessor (NewBoxClient token folder) temp outd fmt) w =
                 (w2, s, None) \<and>
         box_main e token folder outd temp fmt w =
           (fst (GenerateReport e (NewIWorkProcessor (NewBoxClient token folder) temp outd fmt) s w2),
            Completed s
              (case snd (GenerateReport e
                     (NewIWorkProcessor (NewBoxClient token folder) temp outd fmt) s w2) of
                 Inl err \<Rightarrow> [] | Inr reportPath \<Rightarrow> reportPath)) \<and>
         TotalFiles s = int (length fs) \<and>
         Successful s + Failed s = int (length fs) \<and>
         int (length (Errors s)) = Failed s \<and>
         Errors s =
           Errors (snd (process_files e
             (NewIWorkProcessor (NewBoxClient token folder) temp outd fmt) fs w1
             \<lparr>TotalFiles = int (length fs), Successful = 0, Failed = 0, Errors = [],
              ProcessedFiles = [], StartTime = clock e (ticks w), EndTime = 0,
              Duration = 0\<rparr>)) \<and>
         ProcessedFiles s =
           ProcessedFiles (snd (process_files e
             (NewIWorkProcessor (NewBoxClient token folder) temp outd fmt) fs w1
             \<lparr>TotalFiles = int (length fs), Successful = 0, Failed = 0, Errors = [],
              ProcessedFiles = [], StartTime = clock e (ticks w), EndTime = 0,
              Duration = 0\<rparr>)))) \<and>
   (\<exists>out. outcome_of f out \<and>
      process_files e p (f # rest) w0 s0 =
        process_files e p rest (fst (process_file e p f w0 s0)) (record_outcome out s0)) \<and>
   (DownloadFile e (boxClient p) (ID f) (Name f) (tempDir p) (snd (time_Now e w0)) =
      (wd, Inl errd) \<longrightarrow>
      process_files e p (f # rest) w0 s0 =
        process_files e p rest wd
          (s0\<lparr>Failed := Failed s0 + 1,
              Errors := Errors s0 @
                [''Failed to download '' @ Name f @ '': '' @ Error errd]\<rparr>)) \<and>
   (DownloadFile e (boxClient p) (ID f) (Name f) (tempDir p) (snd (time_Now e w0)) =
      (wd, Inr localPath) \<and>
    ConvertIWorkFile e p localPath (output_path e p (Name f)) wd = (wc, Some errc) \<longrightarrow>
      process_files e p (f # rest) w0 s0 =
        process_files e p rest (os_Remove e localPath wc)
          (s0\<lparr>Failed := Failed s0 + 1,
              Errors := Errors s0 @
                [''Failed to convert '' @ Name f @ '': '' @ Error errc]\<rparr>)) \<and>
   (DownloadFile e (boxClient p) (ID f) (Name f) (tempDir p) (snd (time_Now e w0)) =
      (wd, Inr localPath) \<and>
    ConvertIWorkFile e p localPath (output_path e p (Name f)) wd = (wc, None) \<and>
    SaveFileWithMetadata e p localPath (output_path e p (Name f)) f wc = (we, Inl erre) \<longrightarrow>
      process_files e p (f # rest) w0 s0 =
        process_files e p rest (os_Remove e localPath we)
          (s0\<lparr>Failed := Failed s0 + 1,
              Errors := Errors s0 @
                [''Failed to save enhanced file for '' @ Name f @ '': '' @ Error erre]\<rparr>))"
proof -
  let ?bc = "NewBoxClient token folder"
  let ?p = "NewIWorkProcessor ?bc temp outd fmt"
  let ?s0 = "\<lparr>TotalFiles = int (length fs), Successful = 0, Failed = 0, Errors = [],
      ProcessedFiles = [], StartTime = clock e (ticks w), EndTime = 0, Duration = 0\<rparr>"
  have bc: "boxClient ?p = ?bc"
    by (simp add: NewIWorkProcessor_def)
  have A: "box_main e token folder outd temp fmt w =
        (w1, Fatal (''Processing failed: failed to get iWork files: '' @ Error er)) \<and>
      files w1 = files w \<and>
      (sent w1 = sent w \<or> sent w1 = sent w @ [list_request ?bc])"
    if S: "setupDirectories e [temp, outd] = None"
      and G: "GetIWorkFiles e ?bc (snd (time_Now e w)) = (w1, Inl er)"
  proof -
    have "ProcessFolder e ?p w =
      (w1, \<lparr>TotalFiles = 0, Successful = 0, Failed = 0, Errors = [], ProcessedFiles = [],
          StartTime = clock e (ticks w), EndTime = 0, Duration = 0\<rparr>,
       Some (GetIWorkFilesFailed er))"
      using ProcessFolder_listing_failed[of e ?p w w1 er] G bc by simp
    then have "box_main e token folder outd temp fmt w =
        (w1, Fatal (''Processing failed: failed to get iWork files: '' @ Error er))"
      using S by (simp add: box_main_def)
    moreover have "files w1 = files w \<and>
        (sent w1 = sent w \<or> sent w1 = sent w @ [list_request ?bc])"
      using GetIWorkFiles_frame[of e ?bc "snd (time_Now e w)"] G by (simp add: time_Now_simps)
    ultimately show ?thesis by simp
  qed
  have B: "\<exists>w2 s. ProcessFolder e ?p w = (w2, s, None) \<and>
         box_main e token folder outd temp fmt w =
           (fst (GenerateReport e ?p s w2),
            Completed s (case snd (GenerateReport e ?p s w2) of
                 Inl err \<Rightarrow> [] | Inr reportPath \<Rightarrow> reportPath)) \<and>
         TotalFiles s = int (length fs) \<and>
         Successful s + Failed s = int (length fs) \<and>
         int (length (Errors s)) = Failed s \<and>
         Errors s = Errors (snd (process_files e ?p fs w1 ?s0)) \<and>
         ProcessedFiles s = ProcessedFiles (snd (process_files e ?p fs w1 ?s0))"
    if S: "setupDirectories e [temp, outd] = None"
      and G: "GetIWorkFiles e ?bc (snd (time_Now e w)) = (w1, Inr fs)"
  proof -
    obtain w2 s r where PF: "ProcessFolder e ?p w = (w2, s, r)"
      by (cases "ProcessFolder e ?p w")
    obtain outs where O: "list_all2 outcome_of fs outs" "r = None"
      "TotalFiles s = int (length fs)"
      "Successful s = int (length (records_of outs))"
      "Failed s = int (length (messages_of outs))"
      "Errors s = messages_of outs"
      using ProcessFolder_listed[of e ?p w w1 fs] G bc PF by auto
    have "length fs = length outs"
      using O(1) by (rule list_all2_lengthD)
    then have counts: "Successful s + Failed s = int (length fs)"
      using O length_outcomes[of outs] by simp
    have loop: "Errors s = Errors (snd (process_files e ?p fs w1 ?s0)) \<and>
        ProcessedFiles s = ProcessedFiles (snd (process_files e ?p fs w1 ?s0))"
      using ProcessFolder_loop[of e ?p w w1 fs] G bc PF by simp
    have "box_main e token folder outd temp fmt w =
           (fst (GenerateReport e ?p s w2),
            Completed s (case snd (GenerateReport e ?p s w2) of
                 Inl err \<Rightarrow> [] | Inr reportPath \<Rightarrow> reportPath))"
      using S PF O(2) by (simp add: box_main_def split: prod.splits sum.splits)
    then show ?thesis
      using PF O counts loop by simp
  qed
  obtain out where "outcome_of f out" "snd (process_file e p f w0 s0) = record_outcome out s0"
    using process_file_outcome[of f e p w0 s0] by blast
  then have C: "\<exists>out. outcome_of f out \<and>
      process_files e p (f # rest) w0 s0 =
        process_files e p rest (fst (process_file e p f w0 s0)) (record_outcome out s0)"
    by (intro exI[of _ out]) (simp add: case_prod_beta)
  note D1 = process_files_download_failed[of e p f w0 wd errd rest s0]
  note D2 = process_files_convert_failed[of e p f w0 wd localPath wc errc rest s0]
  note D3 = process_files_enrich_failed[of e p f w0 wd localPath wc we erre rest s0]
  show ?thesis
    using A B C D1 D2 D3 by blast
qed

theorem listing_failure_is_fatal_candidate_failure_is_not_witness:
  "box_main (example_env (Response 401 ''401 Unauthorized'' (Body [] None)) listing_ok)
      ''tok'' ''0'' ''out'' ''tmp'' ''txt'' example_world =
     (\<lparr>files = Map.empty, ticks = 1, sent = [list_request (NewBoxClient ''tok'' ''0'')]\<rparr>,
      Fatal ''Processing failed: failed to get iWork files: Box API error: 401 Unauthorized'') \<and>
   snd (box_main (stage_fails_env ''download'') ''tok'' ''0'' ''out'' ''tmp'' ''txt'' example_world) =
     Completed
       \<lparr>TotalFiles = 2, Successful = 1, Failed = 1,
        Errors = [''Failed to download Doc1.pages: failed to create temp file: permission denied''],
        ProcessedFiles =
          [\<lparr>OriginalFile = ''Doc2.numbers'', OutputPath = ''out/Doc2_extracted.txt'',
            FileSize = 2048, ProcessTime = ''2ns''\<rparr>],
        StartTime = 1000, EndTime = 1005, Duration = 5\<rparr>
       ''out/processing_report_1006.json'' \<and>
   Errors (snd (process_files (stage_fails_env ''download'') (example_processor ''txt'')
       [example_doc1, example_doc2] example_world example_summary)) =
     [''Failed to download Doc1.pages: failed to create temp file: permission denied''] \<and>
   Errors (snd (process_files (stage_fails_env ''convert'') (example_processor ''txt'')
       [example_doc1, example_doc2] example_world example_summary)) =
     [''Failed to convert Doc1.pages: snap header''] \<and>
   Errors (snd (process_files (stage_fails_env ''enrich'') (example_processor ''txt'')
       [example_doc1, example_doc2] example_world example_summary)) =
     [''Failed to save enhanced file for Doc1.pages: failed to read converted file: permission denied''] \<and>
   map (\<lambda>stage. map OriginalFile (ProcessedFiles (snd (process_files (stage_fails_env stage)
       (example_processor ''txt'') [example_doc1, example_doc2] example_world example_summary))))
     [''download'', ''convert'', ''enrich''] =
     [[''Doc2.numbers''], [''Doc2.numbers''], [''Doc2.numbers'']]"
proof -
  let ?e1 = "example_env (Response 401 ''401 Unauthorized'' (Body [] None)) listing_ok"
  let ?bc = "NewBoxClient ''tok'' ''0''"
  let ?p = "example_processor ''txt''"
  let ?w1 = "\<lparr>files = Map.empty, ticks = 1, sent = [list_request ?bc]\<rparr>"
  let ?ed = "stage_fails_env ''download''"
  let ?ec = "stage_fails_env ''convert''"
  let ?ee = "stage_fails_env ''enrich''"
  let ?lp = "''tmp/Doc1.pages''"
  have s1: "setupDirectories ?e1 [''tmp'', ''out''] = None"
    and s2: "setupDirectories ?ed [''tmp'', ''out''] = None"
    by (simp_all add: example_defs)
  have g1: "GetIWorkFiles ?e1 ?bc (snd (time_Now ?e1 example_world)) =
      (?w1, Inl (BoxAPIError ''401 Unauthorized''))"
    by (simp add: model_defs example_defs)
  have g2: "GetIWorkFiles ?ed ?bc (snd (time_Now ?ed example_world)) =
      (?w1, Inr [example_doc1, example_doc2])"
    by (simp add: model_defs example_defs)
  have a: "box_main ?e1 ''tok'' ''0'' ''out'' ''tmp'' ''txt'' example_world =
     (?w1, Fatal ''Processing failed: failed to get iWork files: Box API error: 401 Unauthorized'')"
    using listing_failure_is_fatal_candidate_failure_is_not[where e = ?e1 and temp = "''tmp''"
        and outd = "''out''" and token = "''tok''" and folder = "''0''" and w = example_world
        and ?w1.0 = ?w1 and er = "BoxAPIError ''401 Unauthorized''" and fmt = "''txt''",
        THEN conjunct1] s1 g1
    by simp
  have pf: "ProcessFolder ?ed ?p example_world =
      (fst (ProcessFolder ?ed ?p example_world),
       \<lparr>TotalFiles = 2, Successful = 1, Failed = 1,
        Errors = [''Failed to download Doc1.pages: failed to create temp file: permission denied''],
        ProcessedFiles =
          [\<lparr>OriginalFile = ''Doc2.numbers'', OutputPath = ''out/Doc2_extracted.txt'',
            FileSize = 2048, ProcessTime = ''2ns''\<rparr>],
        StartTime = 1000, EndTime = 1005, Duration = 5\<rparr>, None)"
    by (simp add: model_defs example_defs decimal.simps separator_line)
  have rp: "snd (GenerateReport ?ed ?p
       \<lparr>TotalFiles = 2, Successful = 1, Failed = 1,
        Errors = [''Failed to download Doc1.pages: failed to create temp file: permission denied''],
        ProcessedFiles =
          [\<lparr>OriginalFile = ''Doc2.numbers'', OutputPath = ''out/Doc2_extracted.txt'',
            FileSize = 2048, ProcessTime = ''2ns''\<rparr>],
        StartTime = 1000, EndTime = 1005, Duration = 5\<rparr>
       (fst (ProcessFolder ?ed ?p example_world))) = Inr ''out/processing_report_1006.json''"
    by (simp add: model_defs example_defs decimal.simps separator_line)
  have b: "snd (box_main ?ed ''tok'' ''0'' ''out'' ''tmp'' ''txt'' example_world) =
     Completed
       \<lparr>TotalFiles = 2, Successful = 1, Failed = 1,
        Errors = [''Failed to download Doc1.pages: failed to create temp file: permission denied''],
        ProcessedFiles =
          [\<lparr>OriginalFile = ''Doc2.numbers'', OutputPath = ''out/Doc2_extracted.txt'',
            FileSize = 2048, ProcessTime = ''2ns''\<rparr>],
        StartTime = 1000, EndTime = 1005, Duration = 5\<rparr>
       ''out/processing_report_1006.json''"
    using listing_failure_is_fatal_candidate_failure_is_not[where e = ?ed and temp = "''tmp''"
        and outd = "''out''" and token = "''tok''" and folder = "''0''" and w = example_world
        and ?w1.0 = ?w1 and fmt = "''txt''" and fs = "[example_doc1, example_doc2]",
        THEN conjunct2, THEN conjunct1] s2 g2 pf rp
    by (auto simp add: example_processor_def)
  have dd: "DownloadFile ?ed (boxClient ?p) (ID example_doc1) (Name example_doc1) (tempDir ?p)
      (snd (time_Now ?ed example_world)) =
      (fst (DownloadFile ?ed (boxClient ?p) (ID example_doc1) (Name example_doc1) (tempDir ?p)
         (snd (time_Now ?ed example_world))),
       Inl (CreateTempFileFailed ''permission denied''))"
    by (simp add: model_defs example_defs)
  have d: "process_files ?ed ?p (example_doc1 # [example_doc2]) example_world example_summary =
      process_files ?ed ?p [example_doc2]
        (fst (DownloadFile ?ed (boxClient ?p) (ID example_doc1) (Name example_doc1) (tempDir ?p)
           (snd (time_Now ?ed example_world))))
        (example_summary\<lparr>Failed := Failed example_summary + 1,
           Errors := Errors example_summary @
             [''Failed to download '' @ Name example_doc1 @ '': '' @
              Error (CreateTempFileFailed ''permission denied'')]\<rparr>)"
    using listing_failure_is_fatal_candidate_failure_is_not[where e = ?ed and p = ?p
        and f = example_doc1 and rest = "[example_doc2]" and ?w0.0 = example_world
        and ?s0.0 = example_summary
        and wd = "fst (DownloadFile ?ed (boxClient ?p) (ID example_doc1) (Name example_doc1)
           (tempDir ?p) (snd (time_Now ?ed example_world)))"
        and errd = "CreateTempFileFailed ''permission denied''",
        THEN conjunct2, THEN conjunct2, THEN conjunct2, THEN conjunct1] dd
    by blast
  have cd: "DownloadFile ?ec (boxClient ?p) (ID example_doc1) (Name example_doc1) (tempDir ?p)
      (snd (time_Now ?ec example_world)) =
      (fst (DownloadFile ?ec (boxClient ?p) (ID example_doc1) (Name example_doc1) (tempDir ?p)
         (snd (time_Now ?ec example_world))), Inr ?lp)"
    by (simp add: model_defs example_defs)
  have cc: "ConvertIWorkFile ?ec ?p ?lp (output_path ?ec ?p (Name example_doc1))
      (fst (DownloadFile ?ec (boxClient ?p) (ID example_doc1) (Name example_doc1) (tempDir ?p)
         (snd (time_Now ?ec example_world)))) =
      (fst (ConvertIWorkFile ?ec ?p ?lp (output_path ?ec ?p (Name example_doc1))
         (fst (DownloadFile ?ec (boxClient ?p) (ID example_doc1) (Name example_doc1) (tempDir ?p)
            (snd (time_Now ?ec example_world))))),
       Some (ConverterError ''snap header''))"
    by (simp add: model_defs example_defs)
  have c: "process_files ?ec ?p (example_doc1 # [example_doc2]) example_world example_summary =
      process_files ?ec ?p [example_doc2]
        (os_Remove ?ec ?lp
          (fst (ConvertIWorkFile ?ec ?p ?lp (output_path ?ec ?p (Name example_doc1))
             (fst (DownloadFile ?ec (boxClient ?p) (ID example_doc1) (Name example_doc1)
                (tempDir ?p) (snd (time_Now ?ec example_world)))))))
        (example_summary\<lparr>Failed := Failed example_summary + 1,
           Errors := Errors example_summary @
             [''Failed to convert '' @ Name example_doc1 @ '': '' @
              Error (ConverterError ''snap header'')]\<rparr>)"
    using listing_failure_is_fatal_candidate_failure_is_not[where e = ?ec and p = ?p
        and f = example_doc1 and rest = "[example_doc2]" and ?w0.0 = example_world
        and ?s0.0 = example_summary
        and wd = "fst (DownloadFile ?ec (boxClient ?p) (ID example_doc1) (Name example_doc1)
           (tempDir ?p) (snd (time_Now ?ec example_world)))"
        and localPath = ?lp
        and wc = "fst (ConvertIWorkFile ?ec ?p ?lp (output_path ?ec ?p (Name example_doc1))
             (fst (DownloadFile ?ec (boxClient ?p) (ID example_doc1) (Name example_doc1)
                (tempDir ?p) (snd (time_Now ?ec example_world)))))"
        and errc = "ConverterError ''snap header''",
        THEN conjunct2, THEN conjunct2, THEN conjunct2, THEN conjunct2, THEN conjunct1] cd cc
    by blast
  have ed: "DownloadFile ?ee (boxClient ?p) (ID example_doc1) (Name example_doc1) (tempDir ?p)
      (snd (time_Now ?ee example_world)) =
      (fst (DownloadFile ?ee (boxClient ?p) (ID example_doc1) (Name example_doc1) (tempDir ?p)
         (snd (time_Now ?ee example_world))), Inr ?lp)"
    by (simp add: model_defs example_defs)
  have ec: "ConvertIWorkFile ?ee ?p ?lp (output_path ?ee ?p (Name example_doc1))
      (fst (DownloadFile ?ee (boxClient ?p) (ID example_doc1) (Name example_doc1) (tempDir ?p)
         (snd (time_Now ?ee example_world)))) =
      (fst (ConvertIWorkFile ?ee ?p ?lp (output_path ?ee ?p (Name example_doc1))
         (fst (DownloadFile ?ee (boxClient ?p) (ID example_doc1) (Name example_doc1) (tempDir ?p)
            (snd (time_Now ?ee example_world))))), None)"
    by (simp add: model_defs example_defs)
  have es: "SaveFileWithMetadata ?ee ?p ?lp (output_path ?ee ?p (Name example_doc1)) example_doc1
      (fst (ConvertIWorkFile ?ee ?p ?lp (output_path ?ee ?p (Name example_doc1))
         (fst (DownloadFile ?ee (boxClient ?p) (ID example_doc1) (Name example_doc1) (tempDir ?p)
            (snd (time_Now ?ee example_world)))))) =
      (fst (SaveFileWithMetadata ?ee ?p ?lp (output_path ?ee ?p (Name example_doc1)) example_doc1
         (fst (ConvertIWorkFile ?ee ?p ?lp (output_path ?ee ?p (Name example_doc1))
            (fst (DownloadFile ?ee (boxClient ?p) (ID example_doc1) (Name example_doc1)
               (tempDir ?p) (snd (time_Now ?ee example_world))))))),
       Inl (ReadConvertedFailed ''permission denied''))"
    by (simp add: model_defs example_defs)
  have en: "process_files ?ee ?p (example_doc1 # [example_doc2]) example_world example_summary =
      process_files ?ee ?p [example_doc2]
        (os_Remove ?ee ?lp
          (fst (SaveFileWithMetadata ?ee ?p ?lp (output_path ?ee ?p (Name example_doc1))
             example_doc1
             (fst (ConvertIWorkFile ?ee ?p ?lp (output_path ?ee ?p (Name example_doc1))
                (fst (DownloadFile ?ee (boxClient ?p) (ID example_doc1) (Name example_doc1)
                   (tempDir ?p) (snd (time_Now ?ee example_world)))))))))
        (example_summary\<lparr>Failed := Failed example_summary + 1,
           Errors := Errors example_summary @
             [''Failed to save enhanced file for '' @ Name example_doc1 @ '': '' @
              Error (ReadConvertedFailed ''permission denied'')]\<rparr>)"
    using listing_failure_is_fatal_candidate_failure_is_not[where e = ?ee and p = ?p
        and f = example_doc1 and rest = "[example_doc2]" and ?w0.0 = example_world
        and ?s0.0 = example_summary
        and wd = "fst (DownloadFile ?ee (boxClient ?p) (ID example_doc1) (Name example_doc1)
           (tempDir ?p) (snd (time_Now ?ee example_world)))"
        and localPath = ?lp
        and wc = "fst (ConvertIWorkFile ?ee ?p ?lp (output_path ?ee ?p (Name example_doc1))
             (fst (DownloadFile ?ee (boxClient ?p) (ID example_doc1) (Name example_doc1)
                (tempDir ?p) (snd (time_Now ?ee example_world)))))"
        and we = "fst (SaveFileWithMetadata ?ee ?p ?lp (output_path ?ee ?p (Name example_doc1))
             example_doc1
             (fst (ConvertIWorkFile ?ee ?p ?lp (output_path ?ee ?p (Name example_doc1))
                (fst (DownloadFile ?ee (boxClient ?p) (ID example_doc1) (Name example_doc1)
                   (tempDir ?p) (snd (time_Now ?ee example_world)))))))"
        and erre = "ReadConvertedFailed ''permission denied''",
        THEN conjunct2, THEN conjunct2, THEN conjunct2, THEN conjunct2, THEN conjunct2] ed ec es
    by blast
  have rest_d: "Errors (snd (process_files ?ed ?p [example_doc1, example_doc2] example_world
        example_summary)) =
      [''Failed to download Doc1.pages: failed to create temp file: permission denied''] \<and>
    map OriginalFile (ProcessedFiles (snd (process_files ?ed ?p [example_doc1, example_doc2]
        example_world example_summary))) = [''Doc2.numbers'']"
    unfolding d by (simp add: model_defs example_defs decimal.simps separator_line)
  have rest_c: "Errors (snd (process_files ?ec ?p [example_doc1, example_doc2] example_world
        example_summary)) = [''Failed to convert Doc1.pages: snap header''] \<and>
    map OriginalFile (ProcessedFiles (snd (process_files ?ec ?p [example_doc1, example_doc2]
        example_world example_summary))) = [''Doc2.numbers'']"
    unfolding c by (simp add: model_defs example_defs decimal.simps separator_line)
  have rest_e: "Errors (snd (process_files ?ee ?p [example_doc1, example_doc2] example_world
        example_summary)) =
      [''Failed to save enhanced file for Doc1.pages: failed to read converted file: permission denied''] \<and>
    map OriginalFile (ProcessedFiles (snd (process_files ?ee ?p [example_doc1, example_doc2]
        example_world example_summary))) = [''Doc2.numbers'']"
    unfolding en by (simp add: model_defs example_defs decimal.simps separator_line)
  show ?thesis
    using a b rest_d rest_c rest_e by simp
qed

subsection \<open>A listing without candidates\<close>

text \<open>
  C10. When the listing succeeds with no candidate, \<^verbatim>\<open>ProcessFolder\<close> returns at once
  with no error and a summary whose counts are 0, whose lists are empty and whose
  \<^verbatim>\<open>EndTime\<close> and \<^verbatim>\<open>Duration\<close> are still the zero values (the start time is the clock
  reading); \<^verbatim>\<open>main\<close> then writes the report of that summary, when marshalling and
  writing succeed.
\<close>

theorem no_candidates_early_return:
  assumes "setupDirectories e [temp, outd] = None"
    and "GetIWorkFiles e (NewBoxClient token folder) (snd (time_Now e w)) = (w1, Inr [])"
    and "marshal_indent e
           \<lparr>TotalFiles = 0, Successful = 0, Failed = 0, Errors = [], ProcessedFiles = [],
            StartTime = clock e (ticks w), EndTime = 0, Duration = 0\<rparr> = Inr reportData"
    and "write_error e
           (path_join e outd
              (''processing_report_'' @ format_stamp e (clock e (ticks w1)) @ ''.json'')) = None"
  shows "ProcessFolder e (NewIWorkProcessor (NewBoxClient token folder) temp outd fmt) w =
           (w1, \<lparr>TotalFiles = 0, Successful = 0, Failed = 0, Errors = [], ProcessedFiles = [],
                 StartTime = clock e (ticks w), EndTime = 0, Duration = 0\<rparr>, None) \<and>
         box_main e token folder outd temp fmt w =
           (w1\<lparr>ticks := Suc (ticks w1),
               files := (files w1)
                 (path_join e outd
                    (''processing_report_'' @ format_stamp e (clock e (ticks w1)) @ ''.json'')
                  \<mapsto> reportData)\<rparr>,
            Completed
              \<lparr>TotalFiles = 0, Successful = 0, Failed = 0, Errors = [], ProcessedFiles = [],
               StartTime = clock e (ticks w), EndTime = 0, Duration = 0\<rparr>
              (path_join e outd
                 (''processing_report_'' @ format_stamp e (clock e (ticks w1)) @ ''.json'')))"
proof -
  let ?p = "NewIWorkProcessor (NewBoxClient token folder) temp outd fmt"
  have bc: "boxClient ?p = NewBoxClient token folder" and out: "outputDir ?p = outd"
    by (simp_all add: NewIWorkProcessor_def)
  have PF: "ProcessFolder e ?p w =
           (w1, \<lparr>TotalFiles = 0, Successful = 0, Failed = 0, Errors = [], ProcessedFiles = [],
                 StartTime = clock e (ticks w), EndTime = 0, Duration = 0\<rparr>, None)"
    using ProcessFolder_no_candidates[of e ?p w w1] assms(2) bc by simp
  show ?thesis
    using assms(1,3,4) out
    by (simp add: PF box_main_def GenerateReport_def time_Now_def os_WriteFile_def Let_def)
qed

theorem no_candidates_early_return_witness:
  "box_main (example_env (Response 200 ''200 OK'' (Body ''[]'' None)) listing_ok)
      ''tok'' ''0'' ''out'' ''tmp'' ''txt'' example_world =
     (\<lparr>files = [''out/processing_report_1001.json'' \<mapsto> ''{total_files: 0}''], ticks = 2,
        sent = [list_request (NewBoxClient ''tok'' ''0'')]\<rparr>,
      Completed
        \<lparr>TotalFiles = 0, Successful = 0, Failed = 0, Errors = [], ProcessedFiles = [],
         StartTime = 1000, EndTime = 0, Duration = 0\<rparr>
        ''out/processing_report_1001.json'')"
proof -
  let ?e = "example_env (Response 200 ''200 OK'' (Body ''[]'' None)) listing_ok"
  let ?bc = "NewBoxClient ''tok'' ''0''"
  let ?w1 = "\<lparr>files = Map.empty, ticks = 1, sent = [list_request ?bc]\<rparr>"
  have 1: "setupDirectories ?e [''tmp'', ''out''] = None"
    by (simp add: example_env_def)
  have 2: "GetIWorkFiles ?e ?bc (snd (time_Now ?e example_world)) = (?w1, Inr [])"
    by (simp add: model_defs example_defs)
  have 3: "marshal_indent ?e
           \<lparr>TotalFiles = 0, Successful = 0, Failed = 0, Errors = [], ProcessedFiles = [],
            StartTime = clock ?e (ticks example_world), EndTime = 0, Duration = 0\<rparr> =
           Inr ''{total_files: 0}''"
    by (simp add: example_env_def fmt_d_def decimal.simps)
  have 4: "write_error ?e
           (path_join ?e ''out''
              (''processing_report_'' @ format_stamp ?e (clock ?e (ticks ?w1)) @ ''.json'')) = None"
    by (simp add: example_env_def)
  show ?thesis
    using no_candidates_early_return[OF 1 2 3 4, where fmt = "''txt''"]
    by (simp add: example_env_def example_world_def fmt_d_def decimal.simps fun_eq_iff)
qed

subsection \<open>Enrichment\<close>

text \<open>
  C6. When the format is not \<^verbatim>\<open>txt\<close>, \<^verbatim>\<open>SaveFileWithMetadata\<close> changes nothing and
  returns the converted path; and in an iteration whose download and conversion succeed
  (the scratch path being another path than the output path), the output file holds at
  the end what the converter left there, and the record names the output path.
\<close>

theorem non_text_enrichment_is_noop:
  "(format p \<noteq> ''txt'' \<longrightarrow>
      SaveFileWithMetadata e p originalPath convertedPath metadata w = (w, Inr convertedPath)) \<and>
   (format p \<noteq> ''txt'' \<and>
    DownloadFile e (boxClient p) (ID f) (Name f) (tempDir p) (snd (time_Now e w)) =
      (w1, Inr localPath) \<and>
    ConvertIWorkFile e p localPath (output_path e p (Name f)) w1 = (w2, None) \<and>
    localPath \<noteq> output_path e p (Name f) \<longrightarrow>
      files (fst (process_file e p f w s)) (output_path e p (Name f)) =
        files w2 (output_path e p (Name f)) \<and>
      ProcessedFiles (snd (process_file e p f w s)) =
        ProcessedFiles s @
          [\<lparr>OriginalFile = Name f, OutputPath = output_path e p (Name f), FileSize = Size f,
            ProcessTime = duration_string e
              (time_Sub (clock e (ticks w2)) (clock e (ticks w)))\<rparr>])"
proof -
  have noop: "SaveFileWithMetadata e p a c m v = (v, Inr c)" if "format p \<noteq> ''txt''" for a c m v
    using that by (simp add: SaveFileWithMetadata_def)
  have iter: "files (fst (process_file e p f w s)) (output_path e p (Name f)) =
        files w2 (output_path e p (Name f)) \<and>
      ProcessedFiles (snd (process_file e p f w s)) =
        ProcessedFiles s @
          [\<lparr>OriginalFile = Name f, OutputPath = output_path e p (Name f), FileSize = Size f,
            ProcessTime = duration_string e
              (time_Sub (clock e (ticks w2)) (clock e (ticks w)))\<rparr>]"
    if F: "format p \<noteq> ''txt''"
      and D: "DownloadFile e (boxClient p) (ID f) (Name f) (tempDir p) (snd (time_Now e w)) =
        (w1, Inr localPath)"
      and C: "ConvertIWorkFile e p localPath (output_path e p (Name f)) w1 = (w2, None)"
      and N: "localPath \<noteq> output_path e p (Name f)"
  proof -
    have "process_file e p f w s =
        (os_Remove e localPath (snd (time_Now e w2)),
         s\<lparr>Successful := Successful s + 1,
           ProcessedFiles := ProcessedFiles s @
             [\<lparr>OriginalFile = Name f, OutputPath = output_path e p (Name f), FileSize = Size f,
               ProcessTime = duration_string e
                 (time_Sub (fst (time_Now e w2)) (fst (time_Now e w)))\<rparr>]\<rparr>)"
      using D C noop[OF F] by (simp add: process_file_def case_prod_beta)
    then show ?thesis
      using N by (simp add: os_Remove_def time_Now_def split: option.splits)
  qed
  show ?thesis
    using noop iter by blast
qed

theorem non_text_enrichment_is_noop_witness:
  "SaveFileWithMetadata (example_env listing_ok listing_ok) (example_processor ''html'')
      ''tmp/Report.pages'' ''out/Report_converted.html'' example_report example_world =
     (example_world, Inr ''out/Report_converted.html'') \<and>
   files (fst (process_file (example_env listing_ok (Response 200 ''200 OK'' (Body ''NUM'' None)))
            (example_processor ''html'') example_doc2 example_world example_summary))
      ''out/Doc2_converted.html'' = Some ''<p>Hello</p>''"
proof -
  let ?e = "example_env listing_ok (Response 200 ''200 OK'' (Body ''NUM'' None))"
  let ?p = "example_processor ''html''"
  let ?w1 = "\<lparr>files = [''tmp/Doc2.numbers'' \<mapsto> ''NUM''], ticks = 1,
      sent = [download_request (NewBoxClient ''tok'' ''0'') ''12'']\<rparr>"
  let ?w2 = "\<lparr>files = [''tmp/Doc2.numbers'' \<mapsto> ''NUM'', ''out/Doc2_converted.html'' \<mapsto> ''<p>Hello</p>''],
      ticks = 1, sent = [download_request (NewBoxClient ''tok'' ''0'') ''12'']\<rparr>"
  have f: "format ?p \<noteq> ''txt''"
    by (simp add: example_defs)
  have o: "output_path ?e ?p (Name example_doc2) = ''out/Doc2_converted.html''"
    by (simp add: model_defs example_defs)
  have d: "DownloadFile ?e (boxClient ?p) (ID example_doc2) (Name example_doc2) (tempDir ?p)
      (snd (time_Now ?e example_world)) = (?w1, Inr ''tmp/Doc2.numbers'')"
    by (simp add: model_defs example_defs)
  have c: "ConvertIWorkFile ?e ?p ''tmp/Doc2.numbers'' (output_path ?e ?p (Name example_doc2)) ?w1 =
      (?w2, None)"
    by (simp add: o) (simp add: model_defs example_defs)
  have n: "''tmp/Doc2.numbers'' \<noteq> output_path ?e ?p (Name example_doc2)"
    by (simp add: o)
  have "files (fst (process_file ?e ?p example_doc2 example_world example_summary))
      (output_path ?e ?p (Name example_doc2)) = files ?w2 (output_path ?e ?p (Name example_doc2))"
    using non_text_enrichment_is_noop[where p = ?p and e = ?e and f = example_doc2
        and w = example_world and ?w1.0 = ?w1 and localPath = "''tmp/Doc2.numbers''"
        and ?w2.0 = ?w2 and s = example_summary] f d c n
    by blast
  then have second: "files (fst (process_file ?e ?p example_doc2 example_world example_summary))
      ''out/Doc2_converted.html'' = Some ''<p>Hello</p>''"
    by (simp add: o)
  have "format (example_processor ''html'') \<noteq> ''txt''"
    by (simp add: example_defs)
  then have "SaveFileWithMetadata (example_env listing_ok listing_ok) (example_processor ''html'')
      ''tmp/Report.pages'' ''out/Report_converted.html'' example_report example_world =
     (example_world, Inr ''out/Report_converted.html'')"
    using non_text_enrichment_is_noop[where p = "example_processor ''html''"
        and e = "example_env listing_ok listing_ok" and originalPath = "''tmp/Report.pages''"
        and convertedPath = "''out/Report_converted.html''" and metadata = example_report
        and w = example_world]
    by blast
  then show ?thesis
    using second by simp
qed

text \<open>
  C3, amended. When the format is \<^verbatim>\<open>txt\<close> and \<^verbatim>\<open>SaveFileWithMetadata\<close> succeeds, it
  returns the converted path, and the file then holds nine lines followed by the content
  it held before: the six header lines (source name, remote identifier, byte size,
  remote modification time, extraction time, extension), an empty line, the separator
  of 50 dashes, and an empty line.
\<close>

theorem text_header_layout:
  assumes "format p = ''txt''"
    and "SaveFileWithMetadata e p originalPath convertedPath metadata w = (w', Inr finalPath)"
  shows "finalPath = convertedPath \<and>
     (\<exists>content. files w convertedPath = Some content \<and>
        files w' convertedPath =
          Some (concat (map (\<lambda>line. line @ ''\<newline>'')
                  [''# Extracted from: '' @ Name metadata,
                   ''# File ID: '' @ ID metadata,
                   ''# Size: '' @ fmt_d (Size metadata) @ '' bytes'',
                   ''# Modified: '' @ format_rfc3339 e (ModifiedAt metadata),
                   ''# Extracted: '' @ format_rfc3339 e (clock e (ticks w)),
                   ''# Extension: '' @ Extension metadata,
                   '''',
                   replicate 50 CHR ''-'',
                   '''']) @ content))"
  using assms
  by (auto simp add: SaveFileWithMetadata_def os_ReadFile_def os_WriteFile_def time_Now_def
      metadata_buffer_def Let_def split: option.splits sum.splits if_splits)

theorem text_header_layout_witness:
  "SaveFileWithMetadata (example_env listing_ok listing_ok) (example_processor ''txt'')
      ''tmp/Report.pages'' ''out/Report_extracted.txt'' example_report
      (example_world\<lparr>files := [''out/Report_extracted.txt'' \<mapsto> ''Hello'']\<rparr>) =
     (\<lparr>files = [''out/Report_extracted.txt'' \<mapsto>
         ''# Extracted from: Report.pages\<newline># File ID: 42\<newline># Size: 5 bytes\<newline># Modified: T5\<newline># Extracted: T1000\<newline># Extension: .pages\<newline>\<newline>--------------------------------------------------\<newline>\<newline>Hello''],
       ticks = 1, sent = []\<rparr>,
      Inr ''out/Report_extracted.txt'')"
proof -
  let ?e = "example_env listing_ok listing_ok"
  let ?p = "example_processor ''txt''"
  let ?w = "example_world\<lparr>files := [''out/Report_extracted.txt'' \<mapsto> ''Hello'']\<rparr>"
  let ?r = "SaveFileWithMetadata ?e ?p ''tmp/Report.pages'' ''out/Report_extracted.txt''
      example_report ?w"
  have f: "format ?p = ''txt''"
    by (simp add: example_defs)
  have ok: "?r = (fst ?r, Inr ''out/Report_extracted.txt'')"
    by (simp add: model_defs example_defs)
  have rest: "ticks (fst ?r) = 1 \<and> sent (fst ?r) = [] \<and>
      (\<forall>q. q \<noteq> ''out/Report_extracted.txt'' \<longrightarrow> files (fst ?r) q = None)"
    by (simp add: model_defs example_defs)
  have "files (fst ?r) ''out/Report_extracted.txt'' =
      Some ''# Extracted from: Report.pages\<newline># File ID: 42\<newline># Size: 5 bytes\<newline># Modified: T5\<newline># Extracted: T1000\<newline># Extension: .pages\<newline>\<newline>--------------------------------------------------\<newline>\<newline>Hello''"
    using text_header_layout[OF f ok]
    by (simp add: example_defs fmt_d_def decimal.simps separator_line)
  then have "fst ?r = \<lparr>files = [''out/Report_extracted.txt'' \<mapsto>
         ''# Extracted from: Report.pages\<newline># File ID: 42\<newline># Size: 5 bytes\<newline># Modified: T5\<newline># Extracted: T1000\<newline># Extension: .pages\<newline>\<newline>--------------------------------------------------\<newline>\<newline>Hello''],
       ticks = 1, sent = []\<rparr>"
    using rest by (cases "fst ?r") (auto simp add: fun_eq_iff)
  then show ?thesis
    using ok by simp
qed

text \<open>
  C3 as stated has the separator right after the six header lines. For
  \<^verbatim>\<open>Report.pages\<close> converted to \<^verbatim>\<open>Hello\<close>, the enriched file is not that text: its
  seventh line is empty and the separator is its eighth.
\<close>

theorem text_header_layout_counterexample:
  "snd (SaveFileWithMetadata (example_env listing_ok listing_ok) (example_processor ''txt'')
      ''tmp/Report.pages'' ''out/Report_extracted.txt'' example_report
      (example_world\<lparr>files := [''out/Report_extracted.txt'' \<mapsto> ''Hello'']\<rparr>)) =
     Inr ''out/Report_extracted.txt'' \<and>
   files (fst (SaveFileWithMetadata (example_env listing_ok listing_ok) (example_processor ''txt'')
      ''tmp/Report.pages'' ''out/Report_extracted.txt'' example_report
      (example_world\<lparr>files := [''out/Report_extracted.txt'' \<mapsto> ''Hello'']\<rparr>)))
      ''out/Report_extracted.txt'' \<noteq>
     Some (''# Extracted from: Report.pages\<newline># File ID: 42\<newline># Size: 5 bytes\<newline># Modified: T5\<newline># Extracted: T1000\<newline># Extension: .pages\<newline>'' @
           replicate 50 CHR ''-'' @ ''\<newline>\<newline>Hello'') \<and>
   map_option (\<lambda>content. (lines_of content ! 6, lines_of content ! 7))
     (files (fst (SaveFileWithMetadata (example_env listing_ok listing_ok) (example_processor ''txt'')
        ''tmp/Report.pages'' ''out/Report_extracted.txt'' example_report
        (example_world\<lparr>files := [''out/Report_extracted.txt'' \<mapsto> ''Hello'']\<rparr>)))
        ''out/Report_extracted.txt'') =
     Some ('''', replicate 50 CHR ''-'')"
  by (simp add: model_defs example_defs decimal.simps separator_line lines_of_def)

subsection \<open>Errors of the remote requests\<close>

text \<open>
  C4, amended. For the listing and for a download alike, a response whose status code
  is not 200 gives the error of one and the same \<^verbatim>\<open>fmt.Errorf\<close>, filled with the status
  text of the response, whatever the code is; nothing but the request sent is changed.
  A 401 has no error of its own: it differs from another status only in the text quoted.
  A transport failure gives the error of another \<^verbatim>\<open>fmt.Errorf\<close>.
\<close>

theorem status_failures_share_one_error:
  "(new_request_error e (list_url bc) = None \<and>
    http_do e (list_request bc) = Response code status b \<and> code \<noteq> 200 \<longrightarrow>
      GetIWorkFiles e bc w =
        (w\<lparr>sent := sent w @ [list_request bc]\<rparr>, Inl (BoxAPIError status))) \<and>
   (new_request_error e (download_url bc fileID) = None \<and>
    http_do e (download_request bc fileID) = Response code status b \<and> code \<noteq> 200 \<longrightarrow>
      DownloadFile e bc fileID filename tmp w =
        (w\<lparr>sent := sent w @ [download_request bc fileID]\<rparr>, Inl (DownloadStatus status))) \<and>
   (new_request_error e (list_url bc) = None \<and>
    http_do e (list_request bc) = TransportError m \<longrightarrow>
      GetIWorkFiles e bc w =
        (w\<lparr>sent := sent w @ [list_request bc]\<rparr>, Inl (MakeRequestFailed m))) \<and>
   (new_request_error e (download_url bc fileID) = None \<and>
    http_do e (download_request bc fileID) = TransportError m \<longrightarrow>
      DownloadFile e bc fileID filename tmp w =
        (w\<lparr>sent := sent w @ [download_request bc fileID]\<rparr>, Inl (DownloadFailed m)))"
  by (simp add: GetIWorkFiles_def DownloadFile_def)

theorem status_failures_share_one_error_witness:
  "GetIWorkFiles (example_env (Response 403 ''403 Forbidden'' (Body [] None)) listing_ok)
      (NewBoxClient ''tok'' ''0'') example_world =
     (\<lparr>files = Map.empty, ticks = 0, sent = [list_request (NewBoxClient ''tok'' ''0'')]\<rparr>,
      Inl (BoxAPIError ''403 Forbidden'')) \<and>
   DownloadFile (example_env listing_ok (Response 403 ''403 Forbidden'' (Body [] None)))
      (NewBoxClient ''tok'' ''0'') ''12'' ''Doc2.numbers'' ''tmp'' example_world =
     (\<lparr>files = Map.empty, ticks = 0, sent = [download_request (NewBoxClient ''tok'' ''0'') ''12'']\<rparr>,
      Inl (DownloadStatus ''403 Forbidden''))"
proof -
  let ?bc = "NewBoxClient ''tok'' ''0''"
  let ?e1 = "example_env (Response 403 ''403 Forbidden'' (Body [] None)) listing_ok"
  let ?e2 = "example_env listing_ok (Response 403 ''403 Forbidden'' (Body [] None))"
  have 1: "new_request_error ?e1 (list_url ?bc) = None \<and>
      http_do ?e1 (list_request ?bc) = Response 403 ''403 Forbidden'' (Body [] None) \<and>
      (403::int) \<noteq> 200"
    by (simp add: model_defs example_defs)
  have 2: "new_request_error ?e2 (download_url ?bc ''12'') = None \<and>
      http_do ?e2 (download_request ?bc ''12'') = Response 403 ''403 Forbidden'' (Body [] None) \<and>
      (403::int) \<noteq> 200"
    by (simp add: model_defs example_defs)
  have "GetIWorkFiles ?e1 ?bc example_world =
      (example_world\<lparr>sent := sent example_world @ [list_request ?bc]\<rparr>,
       Inl (BoxAPIError ''403 Forbidden''))"
    using status_failures_share_one_error[where e = ?e1 and bc = ?bc and code = 403
        and status = "''403 Forbidden''" and b = "Body [] None" and w = example_world] 1
    by blast
  moreover have "DownloadFile ?e2 ?bc ''12'' ''Doc2.numbers'' ''tmp'' example_world =
      (example_world\<lparr>sent := sent example_world @ [download_request ?bc ''12'']\<rparr>,
       Inl (DownloadStatus ''403 Forbidden''))"
    using status_failures_share_one_error[where e = ?e2 and bc = ?bc and code = 403
        and status = "''403 Forbidden''" and b = "Body [] None" and w = example_world
        and fileID = "''12''" and filename = "''Doc2.numbers''" and tmp = "''tmp''"] 2
    by blast
  ultimately show ?thesis
    by (simp add: example_world_def)
qed

text \<open>
  C4 as stated wants the error of an invalid credential to be of another kind than the
  error of any other status. A 401 and a 500 give errors of the same constructor, for
  the listing and for the download.
\<close>

theorem unauthorized_kind_counterexample:
  "snd (GetIWorkFiles (example_env (Response 401 ''401 Unauthorized'' (Body [] None)) listing_ok)
      (NewBoxClient '''' ''0'') example_world) = Inl (BoxAPIError ''401 Unauthorized'') \<and>
   snd (GetIWorkFiles
      (example_env (Response 500 ''500 Internal Server Error'' (Body [] None)) listing_ok)
      (NewBoxClient ''tok'' ''0'') example_world) = Inl (BoxAPIError ''500 Internal Server Error'') \<and>
   snd (DownloadFile (example_env listing_ok (Response 401 ''401 Unauthorized'' (Body [] None)))
      (NewBoxClient '''' ''0'') ''12'' ''Doc2.numbers'' ''tmp'' example_world) =
     Inl (DownloadStatus ''401 Unauthorized'') \<and>
   snd (DownloadFile
      (example_env listing_ok (Response 500 ''500 Internal Server Error'' (Body [] None)))
      (NewBoxClient ''tok'' ''0'') ''12'' ''Doc2.numbers'' ''tmp'' example_world) =
     Inl (DownloadStatus ''500 Internal Server Error'')"
  by (simp add: model_defs example_defs)

subsection \<open>The scratch file\<close>

text \<open>
  Once the download has returned the path of the scratch file, the iteration ends with
  that file removed, whether conversion and enrichment succeed or fail, provided
  \<^verbatim>\<open>os.Remove\<close> does not fail.
\<close>

lemma scratch_file_removed_after_download:
  assumes D: "DownloadFile e (boxClient p) (ID f) (Name f) (tempDir p) (snd (time_Now e w)) =
      (w1, Inr localPath)"
    and R: "remove_error e localPath = None"
  shows "files (fst (process_file e p f w s)) localPath = None"
proof -
  obtain w2 c where C: "ConvertIWorkFile e p localPath (output_path e p (Name f)) w1 = (w2, c)"
    by (cases "ConvertIWorkFile e p localPath (output_path e p (Name f)) w1")
  obtain w3 m where M:
    "SaveFileWithMetadata e p localPath (output_path e p (Name f)) f w2 = (w3, m)"
    by (cases "SaveFileWithMetadata e p localPath (output_path e p (Name f)) f w2")
  have gone: "files (os_Remove e localPath v) localPath = None" for v
    using R by (simp add: os_Remove_def)
  show ?thesis
    using D C M gone
    by (cases c; cases m) (simp_all add: process_file_def case_prod_beta)
qed

text \<open>
  C2. The claim fails when the download fails after the scratch file was created: the
  body of \<^verbatim>\<open>Doc2.numbers\<close> delivers \<^verbatim>\<open>NUM\<close> and then a read error, \<^verbatim>\<open>io.Copy\<close> fails,
  the iteration records the failure and goes on, and the file written so far is still
  on disk.
\<close>

theorem scratch_file_left_after_failed_copy:
  "files (fst (process_file
      (example_env listing_ok (Response 200 ''200 OK'' (Body ''NUM'' (Some ''unexpected EOF''))))
      (example_processor ''txt'') example_doc2 example_world example_summary))
      ''tmp/Doc2.numbers'' = Some ''NUM'' \<and>
   Errors (snd (process_file
      (example_env listing_ok (Response 200 ''200 OK'' (Body ''NUM'' (Some ''unexpected EOF''))))
      (example_processor ''txt'') example_doc2 example_world example_summary)) =
     [''Failed to download Doc2.numbers: failed to write file: unexpected EOF'']"
  by (simp add: model_defs example_defs)

end
